theory Spec2Isabelle
  imports Main "HOL-Library.Word"
begin

section \<open>The dynamic DNS client of services/ddclient/ddclient.go\<close>

subsection \<open>Go values\<close>

text \<open>
  A Go \<open>error\<close> is either \<open>nil\<close> or an error value. The only error value the code
  compares against is \<open>io.EOF\<close>; every other one is kept by its message. An \<open>error\<close>
  variable is a \<open>go_error option\<close>, with \<open>None\<close> for \<open>nil\<close>. A \<open>string\<close> is its
  sequence of bytes, a \<open>[]string\<close> is a list (the nil slice is the empty list).
\<close>

datatype go_error = EOF | Failure string

subsection \<open>Configuration\<close>

text \<open>
  Modelled from the spec: the structs of package \<open>config_proto\<close> (\<open>Config\<close>, its
  \<open>Frontend\<close> section and that section's \<open>DynDns\<close> part) are generated code outside
  the sources. The spec's Service Configuration holds the check-IP URL, the hostname, the
  DNS server address, the update user name and password and the poll interval in seconds;
  the records below have these fields under the names by which the code reads them.
  Pointers that the code tests against \<open>nil\<close> are options and an absent string is the
  empty string. The interval, whose integer type the spec leaves open, is taken as an
  unsigned 64-bit integer, which \<open>time.Duration(min_update_wait)\<close> converts to signed
  64-bit nanoseconds.
\<close>

record DynDNSConfig =
  DdnsUsername :: string
  DdnsPassword :: string
  Frequency :: "64 word"
  CheckipUrl :: string
  DnsServer :: string

record FrontendConfig =
  Hostname :: string
  DynDns :: "DynDNSConfig option"

record Config =
  Frontend :: "FrontendConfig option"

record DynDNSService =
  config_obj :: Config
  external_ip_url :: string
  dns_server :: string

subsection \<open>The outside world\<close>

text \<open>
  An HTTP response as the code uses it: the status code (never read by the code) and
  what \<open>ioutil.ReadAll(resp.Body)\<close> returns, the bytes read and the read error.
\<close>

record response =
  StatusCode :: int
  body_data :: string
  body_err :: "go_error option"

text \<open>
  The request built by \<open>UpdateDDNSRecord\<close>: method and URL from \<open>http.NewRequest\<close>,
  the \<open>User-Agent\<close> header (\<open>None\<close> while unset) and the credentials given to
  \<open>SetBasicAuth\<close>.
\<close>

record request =
  Method :: string
  URL :: string
  UserAgent :: "string option"
  BasicAuth :: "(string \<times> string) option"

text \<open>
  What the libraries answer during one cycle: \<open>http.Get\<close> on a URL, \<open>LookupHost\<close>
  of a name through a resolver dialling the given DNS server (Go returns the pair of
  addresses and error), whether \<open>http.NewRequest\<close> rejects a URL, and \<open>client.Do\<close>
  on a request. The proxy that \<open>networking.GetProxy()\<close> gives the client's transport is
  part of how \<open>client.Do\<close> answers. Each function of the code makes each of these calls
  at most once per cycle, so one answer per cycle and argument is all it can see.
\<close>

record env =
  http_Get :: "string \<Rightarrow> go_error + response"
  LookupHost :: "string \<Rightarrow> string \<Rightarrow> string list \<times> go_error option"
  NewRequest_err :: "string \<Rightarrow> go_error option"
  client_Do :: "request \<Rightarrow> go_error + response"

text \<open>
  What the code does to the outside, in order: log lines (format string and arguments),
  the three network calls, and blocking in the \<open>select\<close> of the loop with a timer of
  the given \<open>time.Duration\<close> (signed 64-bit nanoseconds).
\<close>

datatype level = Info | Debug | Error

datatype log_arg = AStr string | AErr go_error | AStrs "string list"

datatype event =
    Log level string "log_arg list"
  | HttpGet string
  | DnsLookup string string
  | HttpDo request
  | SelectWait "64 word"

fun is_network_call :: "event \<Rightarrow> bool" where
  "is_network_call (HttpGet u) = True"
| "is_network_call (DnsLookup d h) = True"
| "is_network_call (HttpDo r) = True"
| "is_network_call (Log l f as) = False"
| "is_network_call (SelectWait d) = False"

text \<open>The requests a trace hands to \<open>client.Do\<close>, in order.\<close>

fun update_requests :: "event list \<Rightarrow> request list" where
  "update_requests [] = []"
| "update_requests (HttpDo r # tr) = r # update_requests tr"
| "update_requests (ev # tr) = update_requests tr"

definition network_calls :: "event list \<Rightarrow> event list" where
  "network_calls tr = filter is_network_call tr"

subsection \<open>strings.TrimSpace\<close>

text \<open>
  The standard library trims, at both ends, every rune with \<open>unicode.IsSpace\<close>. On the
  bytes of a string these are the six ASCII characters tab, line feed, vertical tab, form
  feed, carriage return and space, and the UTF-8 encodings of U+0085, U+00A0, U+1680,
  U+2000 to U+200A, U+2028, U+2029, U+202F, U+205F and U+3000. A byte sequence that does
  not decode to one of these is not trimmed.
\<close>

definition asciiSpace :: "char \<Rightarrow> bool" where
  "asciiSpace c =
     (c = CHR 0x09 \<or> c = CHR 0x0A \<or> c = CHR 0x0B \<or> c = CHR 0x0C \<or> c = CHR 0x0D \<or> c = CHR 0x20)"

fun space_rune :: "string \<Rightarrow> bool" where
  "space_rune [a] = asciiSpace a"
| "space_rune [a, b] = (a = CHR 0xC2 \<and> (b = CHR 0x85 \<or> b = CHR 0xA0))"
| "space_rune [a, b, c] =
     ((a = CHR 0xE1 \<and> b = CHR 0x9A \<and> c = CHR 0x80) \<or>
      (a = CHR 0xE2 \<and> b = CHR 0x80 \<and>
         ((128::nat) \<le> of_char c \<and> (of_char c :: nat) \<le> 138 \<or>
          c = CHR 0xA8 \<or> c = CHR 0xA9 \<or> c = CHR 0xAF)) \<or>
      (a = CHR 0xE2 \<and> b = CHR 0x81 \<and> c = CHR 0x9F) \<or>
      (a = CHR 0xE3 \<and> b = CHR 0x80 \<and> c = CHR 0x80))"
| "space_rune s = False"

text \<open>The length in bytes of the white space rune a string starts (ends) with, 0 if none.\<close>

definition leading_space :: "string \<Rightarrow> nat" where
  "leading_space s =
     (if space_rune (take 1 s) then 1
      else if space_rune (take 2 s) then 2
      else if space_rune (take 3 s) then 3 else 0)"

definition trailing_space :: "string \<Rightarrow> nat" where
  "trailing_space s =
     (if space_rune (drop (length s - 1) s) then 1
      else if space_rune (drop (length s - 2) s) then 2
      else if space_rune (drop (length s - 3) s) then 3 else 0)"

lemma leading_space_le: "leading_space s \<le> length s"
proof -
  have a: "space_rune (take 1 s) \<Longrightarrow> 1 \<le> length s"
    by (cases s) auto
  have b: "\<not> space_rune (take 1 s) \<Longrightarrow> space_rune (take 2 s) \<Longrightarrow> 2 \<le> length s"
    by (cases s; cases "tl s") auto
  have c: "\<not> space_rune (take 2 s) \<Longrightarrow> space_rune (take 3 s) \<Longrightarrow> 3 \<le> length s"
    by (cases s; cases "tl s"; cases "tl (tl s)") auto
  show ?thesis
    using a b c by (auto simp: leading_space_def)
qed

lemma trailing_space_le: "trailing_space s \<le> length s"
proof -
  have a: "space_rune (drop (length s - 1) s) \<Longrightarrow> 1 \<le> length s"
    by (cases s) auto
  have b: "\<not> space_rune (drop (length s - 1) s) \<Longrightarrow> space_rune (drop (length s - 2) s)
      \<Longrightarrow> 2 \<le> length s"
    by (cases s; cases "tl s") auto
  have c: "\<not> space_rune (drop (length s - 2) s) \<Longrightarrow> space_rune (drop (length s - 3) s)
      \<Longrightarrow> 3 \<le> length s"
    by (cases s; cases "tl s"; cases "tl (tl s)") auto
  show ?thesis
    using a b c by (auto simp: trailing_space_def)
qed

function TrimLeft :: "string \<Rightarrow> string" where
  "TrimLeft s = (if leading_space s = 0 then s else TrimLeft (drop (leading_space s) s))"
  by pat_completeness auto
termination
proof (relation "measure length")
  show "wf (measure length)" by simp
next
  fix s :: string
  assume "leading_space s \<noteq> 0"
  moreover have "leading_space s \<le> length s" by (rule leading_space_le)
  ultimately show "(drop (leading_space s) s, s) \<in> measure length"
    by simp
qed

function TrimRight :: "string \<Rightarrow> string" where
  "TrimRight s =
     (if trailing_space s = 0 then s else TrimRight (take (length s - trailing_space s) s))"
  by pat_completeness auto
termination
proof (relation "measure length")
  show "wf (measure length)" by simp
next
  fix s :: string
  assume "trailing_space s \<noteq> 0"
  moreover have "trailing_space s \<le> length s" by (rule trailing_space_le)
  ultimately show "(take (length s - trailing_space s) s, s) \<in> measure length"
    by simp
qed

declare TrimLeft.simps [simp del] TrimRight.simps [simp del]

definition TrimSpace :: "string \<Rightarrow> string" where
  "TrimSpace s = TrimRight (TrimLeft s)"

text \<open>A string made of white space runes only.\<close>

inductive spaces :: "string \<Rightarrow> bool" where
  spaces_Nil: "spaces []"
| spaces_Cons: "space_rune r \<Longrightarrow> spaces s \<Longrightarrow> spaces (r @ s)"

code_pred spaces .

subsection \<open>GetExternalIp\<close>

text \<open>
  Each function returns its Go results together with the events it caused.
\<close>

definition GetExternalIp :: "env \<Rightarrow> DynDNSService \<Rightarrow> (string \<times> go_error option) \<times> event list" where
  "GetExternalIp e self =
     (case http_Get e (external_ip_url self) of
        Inl err \<Rightarrow>
          ((''Unable to determine external IP: %v '', Some err),
           [HttpGet (external_ip_url self)])
      | Inr resp \<Rightarrow>
          (let ip = body_data resp;
               err = body_err resp;
               result = TrimSpace ip
           in if err \<noteq> None \<and> err \<noteq> Some EOF
              then ((result, err), [HttpGet (external_ip_url self)])
              else ((result, None), [HttpGet (external_ip_url self)])))"

subsection \<open>GetCurrentDDNSIp\<close>

text \<open>
  The resolver dials \<open>self.dns_server\<close> (\<open>GoogleDNSDialer\<close>) whatever address it is
  asked for, so the lookup depends on that server and the name.
\<close>

definition GetCurrentDDNSIp ::
  "env \<Rightarrow> DynDNSService \<Rightarrow> string \<Rightarrow> (string list \<times> go_error option) \<times> event list" where
  "GetCurrentDDNSIp e self fqdn =
     (case LookupHost e (dns_server self) fqdn of
        (ips, err) \<Rightarrow>
          if err \<noteq> None then (([], err), [DnsLookup (dns_server self) fqdn])
          else ((ips, None), [DnsLookup (dns_server self) fqdn]))"

subsection \<open>UpdateDDNSRecord\<close>

definition UpdateDDNSRecord ::
  "env \<Rightarrow> Config \<Rightarrow> string \<Rightarrow> string \<Rightarrow> string \<Rightarrow> go_error option \<times> event list" where
  "UpdateDDNSRecord e cfg url user pw =
     (case NewRequest_err e url of
        Some err \<Rightarrow> (Some err, [])
      | None \<Rightarrow>
          (let req = \<lparr>Method = ''GET'', URL = url, UserAgent = None, BasicAuth = None\<rparr>;
               req = req\<lparr>UserAgent := Some []\<rparr>;
               req = req\<lparr>BasicAuth := Some (user, pw)\<rparr>
           in case client_Do e req of
                Inl err \<Rightarrow> (Some err, [HttpDo req])
              | Inr resp \<Rightarrow>
                  (case body_err resp of
                     Some err \<Rightarrow> (Some err, [HttpDo req])
                   | None \<Rightarrow>
                       (None,
                        [HttpDo req,
                         Log Debug ''Update response: %v'' [AStr (body_data resp)]]))))"

subsection \<open>updateIP: one cycle\<close>

definition ddns_service :: string where
  "ddns_service = ''domains.google.com''"

text \<open>
  The parameter \<open>config_obj\<close> of the Go functions is written \<open>cfg\<close> here; the
  field of the service keeps its name. \<open>ip_matches\<close> is the loop over
  \<open>hostnameIPs\<close>: does the cycle return from inside it?
\<close>

fun ip_matches :: "string list \<Rightarrow> string \<Rightarrow> bool" where
  "ip_matches [] externalIP = False"
| "ip_matches (ip # ips) externalIP =
     (if ip = externalIP then True else ip_matches ips externalIP)"

definition updateIP :: "env \<Rightarrow> DynDNSService \<Rightarrow> Config \<Rightarrow> event list" where
  "updateIP e self cfg =
     (case Frontend cfg of
        None \<Rightarrow> []
      | Some frontend \<Rightarrow>
     (case DynDns frontend of
        None \<Rightarrow> []
      | Some dyn \<Rightarrow>
     (case GetExternalIp e self of
        ((externalIP, Some err), t1) \<Rightarrow>
          Log Info ''Checking DNS with %v'' [AStr (external_ip_url self)] # t1 @
          [Log Error ''Unable to get external IP: %v'' [AErr err]]
      | ((externalIP, None), t1) \<Rightarrow>
     (case GetCurrentDDNSIp e self (Hostname frontend) of
        ((hostnameIPs, Some err), t2) \<Rightarrow>
          Log Info ''Checking DNS with %v'' [AStr (external_ip_url self)] # t1 @ t2 @
          [Log Error ''Unable to resolve DDNS hostname IP: %v'' [AErr err]]
      | ((hostnameIPs, None), t2) \<Rightarrow>
          if ip_matches hostnameIPs externalIP
          then Log Info ''Checking DNS with %v'' [AStr (external_ip_url self)] # t1 @ t2
          else
            (let reqstr = ''https://'' @ ddns_service @ ''/nic/update?hostname='' @
                          Hostname frontend @ ''&myip='' @ externalIP
             in case UpdateDDNSRecord e cfg reqstr (DdnsUsername dyn) (DdnsPassword dyn) of
                  (Some err, t3) \<Rightarrow>
                    Log Info ''Checking DNS with %v'' [AStr (external_ip_url self)] # t1 @ t2 @
                    [Log Info ''DNS UPDATE REQUIRED. External IP=%v. %v=%v.''
                       [AStr externalIP, AStr (Hostname frontend), AStrs hostnameIPs],
                     Log Debug ''Submitting update request to %v'' [AStr reqstr]] @ t3 @
                    [Log Error ''Failed to update: %v'' [AErr err]]
                | (None, t3) \<Rightarrow>
                    Log Info ''Checking DNS with %v'' [AStr (external_ip_url self)] # t1 @ t2 @
                    [Log Info ''DNS UPDATE REQUIRED. External IP=%v. %v=%v.''
                       [AStr externalIP, AStr (Hostname frontend), AStrs hostnameIPs],
                     Log Debug ''Submitting update request to %v'' [AStr reqstr]] @ t3)))))"

subsection \<open>Start: the loop\<close>

text \<open>
  The loop blocks in a \<open>select\<close> on \<open>ctx.Done()\<close> and a timer. Which case is taken
  each time is the scheduler's choice and an input of the model: \<open>CtxDone\<close>, or
  \<open>TimerFired e\<close> with the outside world \<open>e\<close> of the cycle that follows. When the
  list of wake-ups is used up the loop is still blocked in its \<open>select\<close>.
\<close>

datatype wakeup = CtxDone | TimerFired env

datatype status = Blocked | Returned

text \<open>\<open>time.Duration(min_update_wait) * time.Second\<close>, in 64-bit nanoseconds.\<close>

definition wait_duration :: "64 word \<Rightarrow> 64 word" where
  "wait_duration min_update_wait = min_update_wait * 1000000000"

fun loop :: "DynDNSService \<Rightarrow> Config \<Rightarrow> 64 word \<Rightarrow> wakeup list \<Rightarrow> event list \<times> status" where
  "loop self cfg min_update_wait [] =
     ([SelectWait (wait_duration min_update_wait)], Blocked)"
| "loop self cfg min_update_wait (CtxDone # ws) =
     ([SelectWait (wait_duration min_update_wait)], Returned)"
| "loop self cfg min_update_wait (TimerFired e # ws) =
     (case loop self cfg min_update_wait ws of
        (tr, st) \<Rightarrow>
          (SelectWait (wait_duration min_update_wait) # updateIP e self cfg @ tr, st))"

definition effective_wait :: "64 word \<Rightarrow> 64 word" where
  "effective_wait frequency = (if frequency = 0 then 60 else frequency)"

definition Start :: "env \<Rightarrow> DynDNSService \<Rightarrow> Config \<Rightarrow> wakeup list \<Rightarrow> event list \<times> status" where
  "Start e0 self cfg ws =
     (case Frontend cfg of
        None \<Rightarrow> ([], Returned)
      | Some frontend \<Rightarrow>
     (case DynDns frontend of
        None \<Rightarrow> ([], Returned)
      | Some dyn \<Rightarrow>
          (let min_update_wait = effective_wait (Frequency dyn)
           in case loop self cfg min_update_wait ws of
                (tr, st) \<Rightarrow>
                  (Log Info
                     ''<green>Starting</> the DynDNS service: Updating hostname %v with checkip URL %v''
                     [AStr (Hostname frontend), AStr (external_ip_url self)] #
                   updateIP e0 self cfg @ tr, st))))"

subsection \<open>StartDynDNSService\<close>

text \<open>
  Returns its error and the service whose \<open>Start\<close> runs in the new goroutine, \<open>None\<close>
  when it starts none.
\<close>

definition StartDynDNSService :: "Config \<Rightarrow> go_error option \<times> DynDNSService option" where
  "StartDynDNSService cfg =
     (case Frontend cfg of
        None \<Rightarrow> (None, None)
      | Some frontend \<Rightarrow>
     (case DynDns frontend of
        None \<Rightarrow> (None, None)
      | Some dyn \<Rightarrow>
          if DdnsUsername dyn = [] \<or> Hostname frontend = [] then (None, None)
          else
            (let result = \<lparr>config_obj = cfg,
                            external_ip_url = CheckipUrl dyn,
                            dns_server = DnsServer dyn\<rparr>;
                 result = (if external_ip_url result = []
                           then result\<lparr>external_ip_url := ''https://domains.google.com/checkip''\<rparr>
                           else result);
                 result = (if dns_server result = []
                           then result\<lparr>dns_server := ''8.8.8.8:53''\<rparr>
                           else result)
             in (None, Some result))))"

text \<open>Everything the service does once started, given the scheduler's wake-ups.\<close>

definition service_events :: "env \<Rightarrow> wakeup list \<Rightarrow> Config \<Rightarrow> event list" where
  "service_events e0 ws cfg =
     (case snd (StartDynDNSService cfg) of
        None \<Rightarrow> []
      | Some result \<Rightarrow> fst (Start e0 result cfg ws))"

subsection \<open>Textual IP addresses\<close>

text \<open>
  The code never checks that a string is an IP address. To say that a string is none, it
  is enough that it holds a character outside those of the textual forms that
  \<open>net.ParseIP\<close> accepts: hexadecimal digits, the dot and the colon.
\<close>

definition ip_char :: "char \<Rightarrow> bool" where
  "ip_char c =
     (let n = (of_char c :: nat)
      in 48 \<le> n \<and> n \<le> 57 \<or> 65 \<le> n \<and> n \<le> 70 \<or> 97 \<le> n \<and> n \<le> 102 \<or>
         c = CHR ''.'' \<or> c = CHR '':'')"

subsection \<open>A concrete run\<close>

text \<open>
  A configuration with every field the service needs, the service that
  \<open>StartDynDNSService\<close> builds from it, and a world in which the check-IP endpoint
  answers \<open>203.0.113.9\<close> followed by a line feed while the name resolves to
  \<open>203.0.113.5\<close>.
\<close>

definition example_dyn :: DynDNSConfig where
  "example_dyn =
     \<lparr>DdnsUsername = ''user'', DdnsPassword = ''secret'', Frequency = 0,
      CheckipUrl = [], DnsServer = []\<rparr>"

definition example_config :: Config where
  "example_config =
     \<lparr>Frontend = Some \<lparr>Hostname = ''vr.example.org'', DynDns = Some example_dyn\<rparr>\<rparr>"

definition example_service :: DynDNSService where
  "example_service =
     \<lparr>config_obj = example_config,
      external_ip_url = ''https://domains.google.com/checkip'',
      dns_server = ''8.8.8.8:53''\<rparr>"

definition example_env :: env where
  "example_env =
     \<lparr>http_Get = (\<lambda>url. if url = ''https://domains.google.com/checkip''
                      then Inr \<lparr>StatusCode = 200,
                                body_data = ''203.0.113.9'' @ [CHR 0x0A],
                                body_err = None\<rparr>
                      else Inl (Failure ''no such host'')),
      LookupHost = (\<lambda>server fqdn. ([''203.0.113.5''], None)),
      NewRequest_err = (\<lambda>url. None),
      client_Do = (\<lambda>req. Inr \<lparr>StatusCode = 200,
                               body_data = ''good 203.0.113.9'',
                               body_err = None\<rparr>)\<rparr>"

text \<open>
  The same configuration with an empty password, and with an update frequency of five
  seconds.
\<close>

definition nopassword_config :: Config where
  "nopassword_config =
     \<lparr>Frontend = Some \<lparr>Hostname = ''vr.example.org'',
                        DynDns = Some (example_dyn\<lparr>DdnsPassword := []\<rparr>)\<rparr>\<rparr>"

definition five_second_config :: Config where
  "five_second_config =
     \<lparr>Frontend = Some \<lparr>Hostname = ''vr.example.org'',
                        DynDns = Some (example_dyn\<lparr>Frequency := 5\<rparr>)\<rparr>\<rparr>"

text \<open>
  A world in which the check-IP endpoint answers two lines, and \<open>http.NewRequest\<close>
  rejects, as \<open>url.Parse\<close> does, a URL that holds an ASCII control character.
\<close>

definition control_char :: "char \<Rightarrow> bool" where
  "control_char c = ((of_char c :: nat) < 32 \<or> (of_char c :: nat) = 127)"

definition multiline_env :: env where
  "multiline_env =
     example_env
       \<lparr>http_Get := \<lambda>url.
          Inr \<lparr>StatusCode = 200,
               body_data = ''203.0.113.9'' @ [CHR 0x0A] @ ''203.0.113.10'' @ [CHR 0x0A],
               body_err = None\<rparr>,
        NewRequest_err := \<lambda>url.
          if list_ex control_char url
          then Some (Failure ''net/url: invalid control character in URL'')
          else None\<rparr>"

section \<open>Properties\<close>

subsection \<open>What TrimSpace removes\<close>

lemma spaces_append: "spaces a \<Longrightarrow> spaces b \<Longrightarrow> spaces (a @ b)"
proof (induction rule: spaces.induct)
  case spaces_Nil
  then show ?case by simp
next
  case (spaces_Cons r s)
  have "spaces (s @ b)" using spaces_Cons by simp
  with spaces_Cons(1) have "spaces (r @ (s @ b))"
    by (rule spaces.spaces_Cons)
  then show ?case by simp
qed

lemma leading_space_rune: "leading_space s \<noteq> 0 \<Longrightarrow> space_rune (take (leading_space s) s)"
  by (auto simp: leading_space_def split: if_splits)

lemma trailing_space_rune:
  "trailing_space s \<noteq> 0 \<Longrightarrow> space_rune (drop (length s - trailing_space s) s)"
  by (auto simp: trailing_space_def split: if_splits)

lemma TrimLeft_decomp: "\<exists>pre. s = pre @ TrimLeft s \<and> spaces pre"
proof (induction s rule: TrimLeft.induct)
  case (1 s)
  show ?case
  proof (cases "leading_space s = 0")
    case True
    then have "TrimLeft s = s" by (simp add: TrimLeft.simps)
    then show ?thesis using spaces_Nil by auto
  next
    case False
    from 1 [OF False] obtain pre where
      pre: "drop (leading_space s) s = pre @ TrimLeft (drop (leading_space s) s)" "spaces pre"
      by blast
    have eq: "TrimLeft s = TrimLeft (drop (leading_space s) s)"
      using False by (subst TrimLeft.simps) simp
    have "s = take (leading_space s) s @ drop (leading_space s) s" by simp
    then have "s = (take (leading_space s) s @ pre) @ TrimLeft s"
      using pre(1) eq by simp
    moreover have "spaces (take (leading_space s) s @ pre)"
      using leading_space_rune [OF False] pre(2) by (rule spaces_Cons)
    ultimately show ?thesis by blast
  qed
qed

lemma TrimRight_decomp: "\<exists>post. s = TrimRight s @ post \<and> spaces post"
proof (induction s rule: TrimRight.induct)
  case (1 s)
  show ?case
  proof (cases "trailing_space s = 0")
    case True
    then have "TrimRight s = s" by (simp add: TrimRight.simps)
    then show ?thesis using spaces_Nil by auto
  next
    case False
    let ?n = "length s - trailing_space s"
    from 1 [OF False] obtain post where
      post: "take ?n s = TrimRight (take ?n s) @ post" "spaces post"
      by blast
    have eq: "TrimRight s = TrimRight (take ?n s)"
      using False by (subst TrimRight.simps) simp
    have "spaces (drop ?n s @ [])"
      using trailing_space_rune [OF False] spaces_Nil by (rule spaces_Cons)
    then have "spaces (post @ drop ?n s)"
      using post(2) by (simp add: spaces_append)
    moreover have "s = take ?n s @ drop ?n s" by simp
    then have "s = TrimRight s @ (post @ drop ?n s)"
      using post(1) eq by (metis append_assoc)
    ultimately show ?thesis by blast
  qed
qed

lemma leading_space_TrimLeft: "leading_space (TrimLeft s) = 0"
  by (induction s rule: TrimLeft.induct) (subst TrimLeft.simps, simp)

lemma trailing_space_TrimRight: "trailing_space (TrimRight s) = 0"
  by (induction s rule: TrimRight.induct) (subst TrimRight.simps, simp)

lemma space_rune_long: "3 < length xs \<Longrightarrow> \<not> space_rune xs"
  by (cases xs rule: space_rune.cases) auto

lemma leading_space_0_iff:
  "leading_space s = 0 \<longleftrightarrow> (\<forall>k. \<not> space_rune (take k s))"
proof
  assume z: "leading_space s = 0"
  show "\<forall>k. \<not> space_rune (take k s)"
  proof
    fix k
    have n: "\<not> space_rune (take 1 s)" "\<not> space_rune (take 2 s)" "\<not> space_rune (take 3 s)"
      using z by (auto simp: leading_space_def split: if_splits)
    have "length (take k s) \<le> 3 \<or> 3 < length (take k s)" by arith
    then show "\<not> space_rune (take k s)"
    proof
      assume "length (take k s) \<le> 3"
      moreover have "take k s = take (length (take k s)) s"
        by (simp add: min_def)
      moreover have "m \<le> 3 \<Longrightarrow> m = 0 \<or> m = 1 \<or> m = 2 \<or> m = (3::nat)" for m
        by arith
      ultimately have "take k s = take 0 s \<or> take k s = take 1 s \<or> take k s = take 2 s \<or> take k s = take 3 s"
        by metis
      then show ?thesis using n by auto
    next
      assume "3 < length (take k s)"
      then show ?thesis by (rule space_rune_long)
    qed
  qed
next
  assume "\<forall>k. \<not> space_rune (take k s)"
  then show "leading_space s = 0" by (simp add: leading_space_def)
qed

lemma leading_space_take: "leading_space s = 0 \<Longrightarrow> leading_space (take n s) = 0"
  unfolding leading_space_0_iff by (simp add: take_take)

lemma leading_space_TrimRight: "leading_space s = 0 \<Longrightarrow> leading_space (TrimRight s) = 0"
proof (induction s rule: TrimRight.induct)
  case (1 s)
  show ?case
  proof (cases "trailing_space s = 0")
    case True
    then show ?thesis using 1(2) by (subst TrimRight.simps) simp
  next
    case False
    have "leading_space (take (length s - trailing_space s) s) = 0"
      using 1(2) by (rule leading_space_take)
    from 1(1) [OF False this] show ?thesis
      using False by (subst TrimRight.simps) simp
  qed
qed

lemma TrimSpace_trimmed:
  "\<exists>pre post. s = pre @ TrimSpace s @ post \<and> spaces pre \<and> spaces post"
proof -
  obtain pre where pre: "s = pre @ TrimLeft s" "spaces pre"
    using TrimLeft_decomp by blast
  obtain post where post: "TrimLeft s = TrimRight (TrimLeft s) @ post" "spaces post"
    using TrimRight_decomp by blast
  have "s = pre @ TrimSpace s @ post"
    using pre(1) post(1) by (simp add: TrimSpace_def)
  then show ?thesis using pre(2) post(2) by blast
qed

lemma TrimSpace_ends: "leading_space (TrimSpace s) = 0 \<and> trailing_space (TrimSpace s) = 0"
  by (simp add: TrimSpace_def leading_space_TrimRight leading_space_TrimLeft trailing_space_TrimRight)

lemma trailing_space_0_iff:
  "trailing_space s = 0 \<longleftrightarrow> (\<forall>k. \<not> space_rune (drop k s))"
proof
  assume z: "trailing_space s = 0"
  show "\<forall>k. \<not> space_rune (drop k s)"
  proof
    fix k
    have n: "\<not> space_rune (drop (length s - 1) s)" "\<not> space_rune (drop (length s - 2) s)"
      "\<not> space_rune (drop (length s - 3) s)"
      using z by (auto simp: trailing_space_def split: if_splits)
    have "length (drop k s) \<le> 3 \<or> 3 < length (drop k s)" by arith
    then show "\<not> space_rune (drop k s)"
    proof
      assume le: "length (drop k s) \<le> 3"
      show ?thesis
      proof (cases "k \<le> length s")
        case True
        then have "drop k s = drop (length s - length (drop k s)) s"
          by simp
        moreover have "m \<le> 3 \<Longrightarrow> m = 0 \<or> m = 1 \<or> m = 2 \<or> m = (3::nat)" for m
          by arith
        ultimately have "drop k s = drop (length s - 0) s \<or> drop k s = drop (length s - 1) s \<or>
            drop k s = drop (length s - 2) s \<or> drop k s = drop (length s - 3) s"
          using le by metis
        then show ?thesis using n by auto
      next
        case False
        then show ?thesis by simp
      qed
    next
      assume "3 < length (drop k s)"
      then show ?thesis by (rule space_rune_long)
    qed
  qed
next
  assume "\<forall>k. \<not> space_rune (drop k s)"
  then show "trailing_space s = 0" by (simp add: trailing_space_def)
qed

lemma TrimSpace_no_space_left:
  "(\<forall>k. \<not> space_rune (take k (TrimSpace s))) \<and> (\<forall>k. \<not> space_rune (drop k (TrimSpace s)))"
  using TrimSpace_ends [of s] by (simp add: leading_space_0_iff trailing_space_0_iff)

subsection \<open>The events of the three lookups and of one cycle\<close>

lemma ip_matches_iff: "ip_matches ips externalIP \<longleftrightarrow> externalIP \<in> set ips"
  by (induction ips) auto

lemma GetExternalIp_events: "snd (GetExternalIp e self) = [HttpGet (external_ip_url self)]"
  by (simp add: GetExternalIp_def Let_def split: sum.splits)

lemma GetCurrentDDNSIp_events:
  "snd (GetCurrentDDNSIp e self fqdn) = [DnsLookup (dns_server self) fqdn]"
  by (simp add: GetCurrentDDNSIp_def split: prod.splits)

lemma updateIP_discovery_error:
  assumes "Frontend cfg = Some frontend" and "DynDns frontend = Some dyn"
    and "snd (fst (GetExternalIp e self)) = Some err"
  shows "updateIP e self cfg =
    [Log Info ''Checking DNS with %v'' [AStr (external_ip_url self)],
     HttpGet (external_ip_url self),
     Log Error ''Unable to get external IP: %v'' [AErr err]]"
proof -
  obtain ip where "GetExternalIp e self = ((ip, Some err), [HttpGet (external_ip_url self)])"
    using assms(3) GetExternalIp_events [of e self]
    by (cases "GetExternalIp e self") auto
  then show ?thesis
    using assms(1,2) by (simp add: updateIP_def)
qed

lemma updateIP_resolve_error:
  assumes "Frontend cfg = Some frontend" and "DynDns frontend = Some dyn"
    and "fst (GetExternalIp e self) = (externalIP, None)"
    and "snd (fst (GetCurrentDDNSIp e self (Hostname frontend))) = Some err"
  shows "updateIP e self cfg =
    [Log Info ''Checking DNS with %v'' [AStr (external_ip_url self)],
     HttpGet (external_ip_url self),
     DnsLookup (dns_server self) (Hostname frontend),
     Log Error ''Unable to resolve DDNS hostname IP: %v'' [AErr err]]"
proof -
  have g: "GetExternalIp e self = ((externalIP, None), [HttpGet (external_ip_url self)])"
    using assms(3) GetExternalIp_events [of e self]
    by (cases "GetExternalIp e self") auto
  obtain ips where "GetCurrentDDNSIp e self (Hostname frontend) =
      ((ips, Some err), [DnsLookup (dns_server self) (Hostname frontend)])"
    using assms(4) GetCurrentDDNSIp_events [of e self "Hostname frontend"]
    by (cases "GetCurrentDDNSIp e self (Hostname frontend)") auto
  then show ?thesis
    using assms(1,2) g by (simp add: updateIP_def)
qed

lemma updateIP_match:
  assumes "Frontend cfg = Some frontend" and "DynDns frontend = Some dyn"
    and "fst (GetExternalIp e self) = (externalIP, None)"
    and "fst (GetCurrentDDNSIp e self (Hostname frontend)) = (hostnameIPs, None)"
    and "externalIP \<in> set hostnameIPs"
  shows "updateIP e self cfg =
    [Log Info ''Checking DNS with %v'' [AStr (external_ip_url self)],
     HttpGet (external_ip_url self),
     DnsLookup (dns_server self) (Hostname frontend)]"
proof -
  have g: "GetExternalIp e self = ((externalIP, None), [HttpGet (external_ip_url self)])"
    using assms(3) GetExternalIp_events [of e self]
    by (cases "GetExternalIp e self") auto
  have r: "GetCurrentDDNSIp e self (Hostname frontend) =
      ((hostnameIPs, None), [DnsLookup (dns_server self) (Hostname frontend)])"
    using assms(4) GetCurrentDDNSIp_events [of e self "Hostname frontend"]
    by (cases "GetCurrentDDNSIp e self (Hostname frontend)") auto
  show ?thesis
    using assms(1,2,5) g r by (simp add: updateIP_def ip_matches_iff)
qed

lemma updateIP_update:
  assumes "Frontend cfg = Some frontend" and "DynDns frontend = Some dyn"
    and "fst (GetExternalIp e self) = (externalIP, None)"
    and "fst (GetCurrentDDNSIp e self (Hostname frontend)) = (hostnameIPs, None)"
    and "externalIP \<notin> set hostnameIPs"
    and "reqstr = ''https://domains.google.com/nic/update?hostname='' @ Hostname frontend @
                  ''&myip='' @ externalIP"
  shows "updateIP e self cfg =
    [Log Info ''Checking DNS with %v'' [AStr (external_ip_url self)],
     HttpGet (external_ip_url self),
     DnsLookup (dns_server self) (Hostname frontend),
     Log Info ''DNS UPDATE REQUIRED. External IP=%v. %v=%v.''
       [AStr externalIP, AStr (Hostname frontend), AStrs hostnameIPs],
     Log Debug ''Submitting update request to %v'' [AStr reqstr]] @
    snd (UpdateDDNSRecord e cfg reqstr (DdnsUsername dyn) (DdnsPassword dyn)) @
    (case fst (UpdateDDNSRecord e cfg reqstr (DdnsUsername dyn) (DdnsPassword dyn)) of
       None \<Rightarrow> []
     | Some err \<Rightarrow> [Log Error ''Failed to update: %v'' [AErr err]])"
proof -
  have g: "GetExternalIp e self = ((externalIP, None), [HttpGet (external_ip_url self)])"
    using assms(3) GetExternalIp_events [of e self]
    by (cases "GetExternalIp e self") auto
  have r: "GetCurrentDDNSIp e self (Hostname frontend) =
      ((hostnameIPs, None), [DnsLookup (dns_server self) (Hostname frontend)])"
    using assms(4) GetCurrentDDNSIp_events [of e self "Hostname frontend"]
    by (cases "GetCurrentDDNSIp e self (Hostname frontend)") auto
  have u: "''https://'' @ ddns_service @ ''/nic/update?hostname='' @ Hostname frontend @
      ''&myip='' @ externalIP = reqstr"
    by (simp add: ddns_service_def assms(6))
  show ?thesis
    using assms(1,2,5) g r
    by (simp add: updateIP_def ip_matches_iff u Let_def del: append.simps split: prod.splits option.splits)
qed

lemma UpdateDDNSRecord_requests:
  "update_requests (snd (UpdateDDNSRecord e cfg url user pw)) =
     (case NewRequest_err e url of
        None \<Rightarrow> [\<lparr>Method = ''GET'', URL = url, UserAgent = Some [], BasicAuth = Some (user, pw)\<rparr>]
      | Some err \<Rightarrow> [])"
  by (simp add: UpdateDDNSRecord_def Let_def split: option.splits sum.splits)

lemma UpdateDDNSRecord_rejected:
  "NewRequest_err e url = Some err \<Longrightarrow> UpdateDDNSRecord e cfg url user pw = (Some err, [])"
  by (simp add: UpdateDDNSRecord_def)

lemma update_requests_append:
  "update_requests (a @ b) = update_requests a @ update_requests b"
  by (induction a rule: update_requests.induct) auto

lemma updateIP_no_wait: "SelectWait d \<notin> set (updateIP e self cfg)"
  by (auto simp: updateIP_def GetExternalIp_def GetCurrentDDNSIp_def UpdateDDNSRecord_def Let_def
      split: option.splits prod.splits sum.splits if_splits)

lemma loop_blocked: "CtxDone \<notin> set ws \<Longrightarrow> snd (loop self cfg w ws) = Blocked"
  by (induction self cfg w ws rule: loop.induct) (auto split: prod.splits)

lemma loop_returned: "CtxDone \<in> set ws \<Longrightarrow> snd (loop self cfg w ws) = Returned"
  by (induction self cfg w ws rule: loop.induct) (auto split: prod.splits)

lemma loop_tick:
  "CtxDone \<notin> set ws \<Longrightarrow>
   loop self cfg w (ws @ [TimerFired e]) =
     (fst (loop self cfg w ws) @ updateIP e self cfg @ [SelectWait (wait_duration w)], Blocked)"
  by (induction self cfg w ws rule: loop.induct) (auto split: prod.splits)

lemma loop_cancel:
  "CtxDone \<notin> set ws \<Longrightarrow>
   loop self cfg w (ws @ CtxDone # rest) = (fst (loop self cfg w ws), Returned)"
  by (induction self cfg w ws rule: loop.induct) (auto split: prod.splits)

lemma loop_waits:
  "SelectWait d \<in> set (fst (loop self cfg w ws)) \<Longrightarrow> d = wait_duration w"
  using updateIP_no_wait
  by (induction self cfg w ws rule: loop.induct) (auto split: prod.splits)

lemma Start_unfold:
  assumes "Frontend cfg = Some frontend" and "DynDns frontend = Some dyn"
  shows "Start e0 self cfg ws =
    (Log Info ''<green>Starting</> the DynDNS service: Updating hostname %v with checkip URL %v''
       [AStr (Hostname frontend), AStr (external_ip_url self)] #
     updateIP e0 self cfg @ fst (loop self cfg (effective_wait (Frequency dyn)) ws),
     snd (loop self cfg (effective_wait (Frequency dyn)) ws))"
  using assms by (simp add: Start_def Let_def split: prod.splits)

subsection \<open>The timer's duration\<close>

lemma wait_default: "sint (wait_duration (effective_wait 0)) = 60 * 1000000000"
  by (simp add: wait_duration_def effective_wait_def)

lemma sint_small:
  assumes "uint (x::64 word) < 2 ^ 63"
  shows "sint x = uint x"
proof -
  have "sint x = signed_take_bit 63 (uint x)" by (simp add: sint_uint)
  also have "\<dots> = uint x"
  proof (rule signed_take_bit_int_eq_self)
    have "- (2 ^ 63) \<le> (0::int)" by simp
    also have "0 \<le> uint x" by simp
    finally show "- (2 ^ 63) \<le> uint x" .
    show "uint x < 2 ^ 63" by (rule assms)
  qed
  finally show ?thesis .
qed

lemma wait_configured:
  assumes "f \<noteq> 0" and "uint f * 1000000000 < 2 ^ 63"
  shows "sint (wait_duration (effective_wait f)) = uint f * 1000000000"
proof -
  have w: "wait_duration (effective_wait f) = f * 1000000000"
    using assms(1) by (simp add: wait_duration_def effective_wait_def)
  have "uint (f * 1000000000) = (uint f * 1000000000) mod 2 ^ 64"
    by (simp add: uint_word_ariths)
  also have "\<dots> = uint f * 1000000000"
    using assms(2) by (intro mod_pos_pos_trivial) simp_all
  finally have u: "uint (f * 1000000000) = uint f * 1000000000" .
  then have "uint (f * 1000000000) < 2 ^ 63" using assms(2) by simp
  then have "sint (f * 1000000000) = uint (f * 1000000000)" by (rule sint_small)
  then show ?thesis using w u by simp
qed

lemma wait_in_range:
  assumes "f \<noteq> 0" and "uint f \<le> 9223372036"
  shows "sint (wait_duration (effective_wait f)) = uint f * 1000000000"
proof -
  have "uint f * 1000000000 \<le> 9223372036 * 1000000000"
    using assms(2) by simp
  then have "uint f * 1000000000 < 2 ^ 63" by simp
  with assms(1) show ?thesis by (rule wait_configured)
qed

lemma wait_overflow: "sint (wait_duration (effective_wait 9223372037)) < 0"
  by (simp add: wait_duration_def effective_wait_def)

subsection \<open>The loop\<close>

lemma Start_waits:
  assumes "Frontend cfg = Some frontend" and "DynDns frontend = Some dyn"
    and "SelectWait d \<in> set (fst (Start e0 self cfg ws))"
  shows "d = wait_duration (effective_wait (Frequency dyn))"
proof -
  from assms(3) have "SelectWait d \<in> set (updateIP e0 self cfg) \<or>
      SelectWait d \<in> set (fst (loop self cfg (effective_wait (Frequency dyn)) ws))"
    by (simp add: Start_unfold [OF assms(1,2)])
  then have "SelectWait d \<in> set (fst (loop self cfg (effective_wait (Frequency dyn)) ws))"
    using updateIP_no_wait by blast
  then show ?thesis by (rule loop_waits)
qed

lemma Start_blocked:
  assumes "Frontend cfg = Some frontend" and "DynDns frontend = Some dyn"
    and "CtxDone \<notin> set ws"
  shows "snd (Start e0 self cfg ws) = Blocked"
  using assms(3) by (simp add: Start_unfold [OF assms(1,2)] loop_blocked)

lemma Start_returned_iff:
  assumes "Frontend cfg = Some frontend" and "DynDns frontend = Some dyn"
  shows "snd (Start e0 self cfg ws) = Returned \<longleftrightarrow> CtxDone \<in> set ws"
proof (cases "CtxDone \<in> set ws")
  case True
  then show ?thesis by (simp add: Start_unfold [OF assms] loop_returned)
next
  case False
  then show ?thesis by (simp add: Start_unfold [OF assms] loop_blocked)
qed

lemma Start_tick:
  assumes "Frontend cfg = Some frontend" and "DynDns frontend = Some dyn"
    and "CtxDone \<notin> set ws"
  shows "Start e0 self cfg (ws @ [TimerFired e]) =
    (fst (Start e0 self cfg ws) @ updateIP e self cfg @
       [SelectWait (wait_duration (effective_wait (Frequency dyn)))], Blocked)"
  using assms(3) by (simp add: Start_unfold [OF assms(1,2)] loop_tick)

lemma Start_cancel:
  assumes "Frontend cfg = Some frontend" and "DynDns frontend = Some dyn"
    and "CtxDone \<notin> set ws"
  shows "Start e0 self cfg (ws @ CtxDone # rest) = (fst (Start e0 self cfg ws), Returned)"
  using assms(3) by (simp add: Start_unfold [OF assms(1,2)] loop_cancel)

lemma loop_first_wait:
  "\<exists>tr. fst (loop self cfg w ws) = SelectWait (wait_duration w) # tr"
proof (cases ws)
  case Nil
  then show ?thesis by simp
next
  case (Cons a rest)
  then show ?thesis by (cases a) (auto split: prod.splits)
qed

subsection \<open>The concrete run, evaluated\<close>

lemma TrimSpace_example: "TrimSpace (''203.0.113.9'' @ [CHR 0x0A]) = ''203.0.113.9''"
  by code_simp

lemma TrimSpace_example_both:
  "TrimSpace ([CHR 0x20, CHR 0x09, CHR 0xC2, CHR 0xA0] @ ''203.0.113.9'' @ [CHR 0x0D, CHR 0x0A]) =
     ''203.0.113.9''"
  by code_simp

lemma TrimSpace_multiline:
  "TrimSpace (''203.0.113.9'' @ [CHR 0x0A] @ ''203.0.113.10'' @ [CHR 0x0A]) =
     ''203.0.113.9'' @ [CHR 0x0A] @ ''203.0.113.10''"
  by code_simp

lemma GetExternalIp_example_env:
  assumes "http_Get e = http_Get example_env"
    and "external_ip_url self = ''https://domains.google.com/checkip''"
  shows "GetExternalIp e self =
     ((''203.0.113.9'', None), [HttpGet ''https://domains.google.com/checkip''])"
  using TrimSpace_example
  by (simp add: GetExternalIp_def example_env_def assms)

lemma GetExternalIp_example:
  "GetExternalIp example_env example_service =
     ((''203.0.113.9'', None), [HttpGet ''https://domains.google.com/checkip''])"
  by (simp add: GetExternalIp_example_env example_service_def)

lemma GetCurrentDDNSIp_example:
  "GetCurrentDDNSIp example_env example_service ''vr.example.org'' =
     (([''203.0.113.5''], None), [DnsLookup ''8.8.8.8:53'' ''vr.example.org''])"
  by (simp add: GetCurrentDDNSIp_def example_env_def example_service_def)

lemma UpdateDDNSRecord_example:
  "UpdateDDNSRecord example_env cfg url user pw =
     (None,
      [HttpDo \<lparr>Method = ''GET'', URL = url, UserAgent = Some [], BasicAuth = Some (user, pw)\<rparr>,
       Log Debug ''Update response: %v'' [AStr ''good 203.0.113.9'']])"
  by (simp add: UpdateDDNSRecord_def example_env_def)

lemma example_config_sel:
  "Frontend example_config = Some \<lparr>Hostname = ''vr.example.org'', DynDns = Some example_dyn\<rparr>"
  by (simp add: example_config_def)

lemma updateIP_example:
  "updateIP example_env example_service example_config =
     [Log Info ''Checking DNS with %v'' [AStr ''https://domains.google.com/checkip''],
      HttpGet ''https://domains.google.com/checkip'',
      DnsLookup ''8.8.8.8:53'' ''vr.example.org'',
      Log Info ''DNS UPDATE REQUIRED. External IP=%v. %v=%v.''
        [AStr ''203.0.113.9'', AStr ''vr.example.org'', AStrs [''203.0.113.5'']],
      Log Debug ''Submitting update request to %v''
        [AStr ''https://domains.google.com/nic/update?hostname=vr.example.org&myip=203.0.113.9''],
      HttpDo \<lparr>Method = ''GET'',
              URL = ''https://domains.google.com/nic/update?hostname=vr.example.org&myip=203.0.113.9'',
              UserAgent = Some [], BasicAuth = Some (''user'', ''secret'')\<rparr>,
      Log Debug ''Update response: %v'' [AStr ''good 203.0.113.9'']]"
proof -
  have s: "external_ip_url example_service = ''https://domains.google.com/checkip''"
    "dns_server example_service = ''8.8.8.8:53''"
    by (simp_all add: example_service_def)
  have d: "DdnsUsername example_dyn = ''user''" "DdnsPassword example_dyn = ''secret''"
    by (simp_all add: example_dyn_def)
  have g: "fst (GetExternalIp example_env example_service) = (''203.0.113.9'', None)"
    by (simp add: GetExternalIp_example)
  have r: "fst (GetCurrentDDNSIp example_env example_service
      (Hostname \<lparr>Hostname = ''vr.example.org'', DynDns = Some example_dyn\<rparr>)) =
      ([''203.0.113.5''], None)"
    by (simp add: GetCurrentDDNSIp_example)
  have n: "''203.0.113.9'' \<notin> set [''203.0.113.5'']" by simp
  from updateIP_update [OF example_config_sel _ g r n refl]
  show ?thesis
    by (simp add: UpdateDDNSRecord_example s d)
qed

lemma example_frontend_sel:
  "DynDns \<lparr>Hostname = ''vr.example.org'', DynDns = Some example_dyn\<rparr> = Some example_dyn"
  by simp

lemma Start_example_cycle:
  "Start example_env example_service example_config [] =
     (Log Info ''<green>Starting</> the DynDNS service: Updating hostname %v with checkip URL %v''
        [AStr ''vr.example.org'', AStr ''https://domains.google.com/checkip''] #
      updateIP example_env example_service example_config @ [SelectWait 60000000000],
      Blocked)"
proof -
  have "wait_duration (effective_wait (Frequency example_dyn)) = 60000000000"
    by (simp add: wait_duration_def effective_wait_def example_dyn_def)
  then show ?thesis
    using Start_unfold [OF example_config_sel, of example_dyn example_env example_service "[]"]
    by (simp add: example_service_def)
qed

section \<open>The claims\<close>

subsection \<open>Starting the service\<close>

text \<open>
  C1 as stated fails on the password: with a hostname and a user name but an empty
  password the service is started, and its first cycle goes to the network (here it even
  submits an update, with the empty password in its credentials).
\<close>

theorem StartDynDNSService_empty_password_counterexample:
  "DdnsPassword (example_dyn\<lparr>DdnsPassword := []\<rparr>) = [] \<and>
   StartDynDNSService nopassword_config =
     (None, Some (example_service\<lparr>config_obj := nopassword_config\<rparr>)) \<and>
   network_calls (service_events example_env [] nopassword_config) =
     [HttpGet ''https://domains.google.com/checkip'',
      DnsLookup ''8.8.8.8:53'' ''vr.example.org'',
      HttpDo \<lparr>Method = ''GET'',
              URL = ''https://domains.google.com/nic/update?hostname=vr.example.org&myip=203.0.113.9'',
              UserAgent = Some [], BasicAuth = Some (''user'', [])\<rparr>]"
proof -
  let ?svc = "example_service\<lparr>config_obj := nopassword_config\<rparr>"
  let ?fr = "\<lparr>Hostname = ''vr.example.org'',
              DynDns = Some (example_dyn\<lparr>DdnsPassword := []\<rparr>)\<rparr>"
  have st: "StartDynDNSService nopassword_config = (None, Some ?svc)"
    by (simp add: StartDynDNSService_def nopassword_config_def example_dyn_def
        example_service_def)
  have f: "Frontend nopassword_config = Some ?fr"
    by (simp add: nopassword_config_def)
  have d: "DynDns ?fr = Some (example_dyn\<lparr>DdnsPassword := []\<rparr>)"
    by simp
  have g: "fst (GetExternalIp example_env ?svc) = (''203.0.113.9'', None)"
    by (simp add: GetExternalIp_example_env example_service_def)
  have r: "fst (GetCurrentDDNSIp example_env ?svc (Hostname ?fr)) = ([''203.0.113.5''], None)"
    by (simp add: GetCurrentDDNSIp_def example_env_def)
  have n: "''203.0.113.9'' \<notin> set [''203.0.113.5'']" by simp
  have u: "updateIP example_env ?svc nopassword_config =
     [Log Info ''Checking DNS with %v'' [AStr ''https://domains.google.com/checkip''],
      HttpGet ''https://domains.google.com/checkip'',
      DnsLookup ''8.8.8.8:53'' ''vr.example.org'',
      Log Info ''DNS UPDATE REQUIRED. External IP=%v. %v=%v.''
        [AStr ''203.0.113.9'', AStr ''vr.example.org'', AStrs [''203.0.113.5'']],
      Log Debug ''Submitting update request to %v''
        [AStr ''https://domains.google.com/nic/update?hostname=vr.example.org&myip=203.0.113.9''],
      HttpDo \<lparr>Method = ''GET'',
              URL = ''https://domains.google.com/nic/update?hostname=vr.example.org&myip=203.0.113.9'',
              UserAgent = Some [], BasicAuth = Some (''user'', [])\<rparr>,
      Log Debug ''Update response: %v'' [AStr ''good 203.0.113.9'']]"
    using updateIP_update [OF f d g r n refl]
    by (simp add: UpdateDDNSRecord_example example_service_def example_dyn_def)
  have "fst (Start example_env ?svc nopassword_config []) =
      Log Info ''<green>Starting</> the DynDNS service: Updating hostname %v with checkip URL %v''
        [AStr ''vr.example.org'', AStr ''https://domains.google.com/checkip''] #
      updateIP example_env ?svc nopassword_config @
      [SelectWait (wait_duration (effective_wait (Frequency (example_dyn\<lparr>DdnsPassword := []\<rparr>))))]"
    using Start_unfold [OF f d, of example_env ?svc "[]"]
    by (simp add: example_service_def)
  then have "network_calls (service_events example_env [] nopassword_config) =
     [HttpGet ''https://domains.google.com/checkip'',
      DnsLookup ''8.8.8.8:53'' ''vr.example.org'',
      HttpDo \<lparr>Method = ''GET'',
              URL = ''https://domains.google.com/nic/update?hostname=vr.example.org&myip=203.0.113.9'',
              UserAgent = Some [], BasicAuth = Some (''user'', [])\<rparr>]"
    by (simp add: service_events_def st u network_calls_def)
  with st show ?thesis by simp
qed

text \<open>
  C1, amended: \<open>StartDynDNSService\<close> always returns a nil error. It starts no loop
  exactly when the frontend section or its DynDns section is absent, or the user name or
  the hostname is empty; the password is not looked at. When it starts no loop, the
  service does nothing at all, so it makes no network call, whatever the scheduler does.
\<close>

theorem StartDynDNSService_starts_iff:
  "fst (StartDynDNSService cfg) = None \<and>
   (snd (StartDynDNSService cfg) = None \<longleftrightarrow>
      (\<forall>frontend dyn. Frontend cfg = Some frontend \<and> DynDns frontend = Some dyn \<longrightarrow>
         DdnsUsername dyn = [] \<or> Hostname frontend = [])) \<and>
   (snd (StartDynDNSService cfg) = None \<longrightarrow>
      service_events e0 ws cfg = [] \<and> network_calls (service_events e0 ws cfg) = [])"
proof -
  have a: "fst (StartDynDNSService cfg) = None"
    by (simp add: StartDynDNSService_def Let_def split: option.splits)
  have b: "snd (StartDynDNSService cfg) = None \<longleftrightarrow>
      (\<forall>frontend dyn. Frontend cfg = Some frontend \<and> DynDns frontend = Some dyn \<longrightarrow>
         DdnsUsername dyn = [] \<or> Hostname frontend = [])"
    by (simp add: StartDynDNSService_def Let_def split: option.splits)
  have c: "snd (StartDynDNSService cfg) = None \<longrightarrow>
      service_events e0 ws cfg = [] \<and> network_calls (service_events e0 ws cfg) = []"
    by (simp add: service_events_def network_calls_def)
  from a b c show ?thesis by (intro conjI)
qed

theorem StartDynDNSService_starts_iff_witness:
  "StartDynDNSService
     \<lparr>Frontend = Some \<lparr>Hostname = [], DynDns = Some example_dyn\<rparr>\<rparr> = (None, None) \<and>
   StartDynDNSService
     \<lparr>Frontend = Some \<lparr>Hostname = ''vr.example.org'',
                       DynDns = Some (example_dyn\<lparr>DdnsUsername := []\<rparr>)\<rparr>\<rparr> = (None, None) \<and>
   service_events example_env [TimerFired example_env]
     \<lparr>Frontend = Some \<lparr>Hostname = [], DynDns = Some example_dyn\<rparr>\<rparr> = []"
proof -
  let ?c1 = "\<lparr>Frontend = Some \<lparr>Hostname = [], DynDns = Some example_dyn\<rparr>\<rparr>"
  let ?c2 = "\<lparr>Frontend = Some \<lparr>Hostname = ''vr.example.org'',
                       DynDns = Some (example_dyn\<lparr>DdnsUsername := []\<rparr>)\<rparr>\<rparr>"
  have h1: "\<forall>frontend dyn. Frontend ?c1 = Some frontend \<and> DynDns frontend = Some dyn \<longrightarrow>
      DdnsUsername dyn = [] \<or> Hostname frontend = []"
    by auto
  have h2: "\<forall>frontend dyn. Frontend ?c2 = Some frontend \<and> DynDns frontend = Some dyn \<longrightarrow>
      DdnsUsername dyn = [] \<or> Hostname frontend = []"
    by auto
  note t1 = StartDynDNSService_starts_iff [of ?c1 example_env "[TimerFired example_env]"]
  note t2 = StartDynDNSService_starts_iff [of ?c2 example_env "[]"]
  have n1: "snd (StartDynDNSService ?c1) = None"
    using t1 [THEN conjunct2, THEN conjunct1] h1 by (rule iffD2)
  have n2: "snd (StartDynDNSService ?c2) = None"
    using t2 [THEN conjunct2, THEN conjunct1] h2 by (rule iffD2)
  have e1: "service_events example_env [TimerFired example_env] ?c1 = []"
    using t1 [THEN conjunct2, THEN conjunct2, rule_format, OF n1] by (rule conjunct1)
  have "StartDynDNSService ?c1 = (None, None)"
    using t1 [THEN conjunct1] n1 by (simp add: prod_eq_iff)
  moreover have "StartDynDNSService ?c2 = (None, None)"
    using t2 [THEN conjunct1] n2 by (simp add: prod_eq_iff)
  ultimately show ?thesis using e1 by (intro conjI)
qed

subsection \<open>One cycle\<close>

text \<open>
  C2 as stated fails when \<open>http.NewRequest\<close> rejects the URL. The discovered IP is put
  into the URL unchecked; here the check-IP endpoint answers two lines, the trimmed body
  keeps the line feed between them, it differs from the resolved address, and the URL
  built from it is rejected. The cycle sends no update request at all: its only network
  calls are the discovery and the lookup.
\<close>

theorem updateIP_rejected_url_counterexample:
  "fst (GetExternalIp multiline_env example_service) =
     (''203.0.113.9'' @ [CHR 0x0A] @ ''203.0.113.10'', None) \<and>
   fst (GetCurrentDDNSIp multiline_env example_service ''vr.example.org'') =
     ([''203.0.113.5''], None) \<and>
   ''203.0.113.9'' @ [CHR 0x0A] @ ''203.0.113.10'' \<notin> set [''203.0.113.5''] \<and>
   update_requests (updateIP multiline_env example_service example_config) = [] \<and>
   network_calls (updateIP multiline_env example_service example_config) =
     [HttpGet ''https://domains.google.com/checkip'',
      DnsLookup ''8.8.8.8:53'' ''vr.example.org'']"
proof -
  let ?ip = "''203.0.113.9'' @ [CHR 0x0A] @ ''203.0.113.10''"
  let ?url = "''https://domains.google.com/nic/update?hostname='' @
      Hostname \<lparr>Hostname = ''vr.example.org'', DynDns = Some example_dyn\<rparr> @ ''&myip='' @ ?ip"
  have g: "fst (GetExternalIp multiline_env example_service) = (?ip, None)"
    using TrimSpace_multiline
    by (simp add: GetExternalIp_def multiline_env_def)
  have r: "fst (GetCurrentDDNSIp multiline_env example_service ''vr.example.org'') =
      ([''203.0.113.5''], None)"
    by (simp add: GetCurrentDDNSIp_def multiline_env_def example_env_def)
  then have r': "fst (GetCurrentDDNSIp multiline_env example_service
      (Hostname \<lparr>Hostname = ''vr.example.org'', DynDns = Some example_dyn\<rparr>)) =
      ([''203.0.113.5''], None)"
    by simp
  have n: "?ip \<notin> set [''203.0.113.5'']" by simp
  have rej: "NewRequest_err multiline_env ?url =
      Some (Failure ''net/url: invalid control character in URL'')"
    by (simp add: multiline_env_def control_char_def)
  have u: "UpdateDDNSRecord multiline_env example_config ?url (DdnsUsername example_dyn)
      (DdnsPassword example_dyn) =
      (Some (Failure ''net/url: invalid control character in URL''), [])"
    using rej by (rule UpdateDDNSRecord_rejected)
  have tr: "updateIP multiline_env example_service example_config =
     [Log Info ''Checking DNS with %v'' [AStr ''https://domains.google.com/checkip''],
      HttpGet ''https://domains.google.com/checkip'',
      DnsLookup ''8.8.8.8:53'' ''vr.example.org'',
      Log Info ''DNS UPDATE REQUIRED. External IP=%v. %v=%v.''
        [AStr ?ip, AStr ''vr.example.org'', AStrs [''203.0.113.5'']],
      Log Debug ''Submitting update request to %v'' [AStr ?url],
      Log Error ''Failed to update: %v''
        [AErr (Failure ''net/url: invalid control character in URL'')]]"
    using updateIP_update [OF example_config_sel example_frontend_sel g r' n refl]
    by (simp only: u) (simp add: example_service_def)
  have a: "update_requests (updateIP multiline_env example_service example_config) = []"
    by (simp only: tr) simp
  have b: "network_calls (updateIP multiline_env example_service example_config) =
     [HttpGet ''https://domains.google.com/checkip'',
      DnsLookup ''8.8.8.8:53'' ''vr.example.org'']"
    by (simp only: tr) (simp add: network_calls_def)
  from g r n a b show ?thesis by (intro conjI)
qed

text \<open>
  C2, amended: in a cycle whose discovered IP differs from every resolved address,
  \<open>updateIP\<close> calls \<open>UpdateDDNSRecord\<close> exactly once: after the discovery, the lookup
  and two log lines, the events of the cycle are those of that one call, followed by an
  error log line if it failed. The call is given the URL
  \<open>https://domains.google.com/nic/update?hostname=<hostname>&myip=<ip>\<close>, the configured
  hostname and the discovered IP put in as they are, and the configured user name and
  password. When \<open>http.NewRequest\<close> accepts this URL, exactly one request is sent in
  the cycle: a GET of that URL carrying these credentials as Basic Authentication, with
  an empty User-Agent. When it rejects the URL, no request is sent.
\<close>

theorem updateIP_one_update:
  assumes "Frontend cfg = Some frontend" and "DynDns frontend = Some dyn"
    and "fst (GetExternalIp e self) = (externalIP, None)"
    and "fst (GetCurrentDDNSIp e self (Hostname frontend)) = (hostnameIPs, None)"
    and "externalIP \<notin> set hostnameIPs"
    and "reqstr = ''https://domains.google.com/nic/update?hostname='' @ Hostname frontend @
                  ''&myip='' @ externalIP"
  shows "updateIP e self cfg =
           [Log Info ''Checking DNS with %v'' [AStr (external_ip_url self)],
            HttpGet (external_ip_url self),
            DnsLookup (dns_server self) (Hostname frontend),
            Log Info ''DNS UPDATE REQUIRED. External IP=%v. %v=%v.''
              [AStr externalIP, AStr (Hostname frontend), AStrs hostnameIPs],
            Log Debug ''Submitting update request to %v'' [AStr reqstr]] @
           snd (UpdateDDNSRecord e cfg reqstr (DdnsUsername dyn) (DdnsPassword dyn)) @
           (case fst (UpdateDDNSRecord e cfg reqstr (DdnsUsername dyn) (DdnsPassword dyn)) of
              None \<Rightarrow> []
            | Some err \<Rightarrow> [Log Error ''Failed to update: %v'' [AErr err]]) \<and>
         update_requests (updateIP e self cfg) =
           (case NewRequest_err e reqstr of
              None \<Rightarrow> [\<lparr>Method = ''GET'', URL = reqstr, UserAgent = Some [],
                        BasicAuth = Some (DdnsUsername dyn, DdnsPassword dyn)\<rparr>]
            | Some err \<Rightarrow> [])"
proof -
  let ?u = "UpdateDDNSRecord e cfg reqstr (DdnsUsername dyn) (DdnsPassword dyn)"
  let ?pre = "[Log Info ''Checking DNS with %v'' [AStr (external_ip_url self)],
            HttpGet (external_ip_url self),
            DnsLookup (dns_server self) (Hostname frontend),
            Log Info ''DNS UPDATE REQUIRED. External IP=%v. %v=%v.''
              [AStr externalIP, AStr (Hostname frontend), AStrs hostnameIPs],
            Log Debug ''Submitting update request to %v'' [AStr reqstr]]"
  let ?post = "case fst ?u of None \<Rightarrow> []
            | Some err \<Rightarrow> [Log Error ''Failed to update: %v'' [AErr err]]"
  have tr: "updateIP e self cfg = ?pre @ snd ?u @ ?post"
    using assms by (rule updateIP_update)
  have "update_requests ?pre = []" by simp
  moreover have "update_requests ?post = []" by (simp split: option.splits)
  ultimately have "update_requests (updateIP e self cfg) = update_requests (snd ?u)"
    by (simp only: tr update_requests_append) simp
  then have "update_requests (updateIP e self cfg) =
      (case NewRequest_err e reqstr of
         None \<Rightarrow> [\<lparr>Method = ''GET'', URL = reqstr, UserAgent = Some [],
                   BasicAuth = Some (DdnsUsername dyn, DdnsPassword dyn)\<rparr>]
       | Some err \<Rightarrow> [])"
    by (simp only: UpdateDDNSRecord_requests)
  with tr show ?thesis by (rule conjI)
qed

theorem updateIP_one_update_witness:
  "update_requests (updateIP example_env example_service example_config) =
     [\<lparr>Method = ''GET'',
       URL = ''https://domains.google.com/nic/update?hostname=vr.example.org&myip=203.0.113.9'',
       UserAgent = Some [], BasicAuth = Some (''user'', ''secret'')\<rparr>]"
proof -
  have g: "fst (GetExternalIp example_env example_service) = (''203.0.113.9'', None)"
    by (simp add: GetExternalIp_example)
  have r: "fst (GetCurrentDDNSIp example_env example_service
      (Hostname \<lparr>Hostname = ''vr.example.org'', DynDns = Some example_dyn\<rparr>)) =
      ([''203.0.113.5''], None)"
    by (simp add: GetCurrentDDNSIp_example)
  have n: "''203.0.113.9'' \<notin> set [''203.0.113.5'']" by simp
  have q: "NewRequest_err example_env url = None" for url
    by (simp add: example_env_def)
  from updateIP_one_update [OF example_config_sel _ g r n refl, THEN conjunct2]
  show ?thesis
    by (simp add: q example_dyn_def)
qed

text \<open>
  C3: in a cycle whose discovered IP equals one of the resolved addresses, the cycle
  ends at the comparison: its events are the first log line, the discovery and the
  lookup, and nothing else; no update request is sent.
\<close>

theorem updateIP_no_update:
  assumes "Frontend cfg = Some frontend" and "DynDns frontend = Some dyn"
    and "fst (GetExternalIp e self) = (externalIP, None)"
    and "fst (GetCurrentDDNSIp e self (Hostname frontend)) = (hostnameIPs, None)"
    and "externalIP \<in> set hostnameIPs"
  shows "updateIP e self cfg =
           [Log Info ''Checking DNS with %v'' [AStr (external_ip_url self)],
            HttpGet (external_ip_url self),
            DnsLookup (dns_server self) (Hostname frontend)] \<and>
         update_requests (updateIP e self cfg) = []"
proof -
  have tr: "updateIP e self cfg =
      [Log Info ''Checking DNS with %v'' [AStr (external_ip_url self)],
       HttpGet (external_ip_url self),
       DnsLookup (dns_server self) (Hostname frontend)]"
    using assms by (rule updateIP_match)
  then have "update_requests (updateIP e self cfg) = []"
    by simp
  with tr show ?thesis by (rule conjI)
qed

theorem updateIP_no_update_witness:
  "updateIP
     (example_env\<lparr>LookupHost := \<lambda>server fqdn. ([''203.0.113.5'', ''203.0.113.9''], None)\<rparr>)
     example_service example_config =
     [Log Info ''Checking DNS with %v'' [AStr ''https://domains.google.com/checkip''],
      HttpGet ''https://domains.google.com/checkip'',
      DnsLookup ''8.8.8.8:53'' ''vr.example.org'']"
proof -
  let ?e = "example_env\<lparr>LookupHost := \<lambda>server fqdn.
      ([''203.0.113.5'', ''203.0.113.9''], None)\<rparr>"
  have g: "fst (GetExternalIp ?e example_service) = (''203.0.113.9'', None)"
    using GetExternalIp_example
    by (simp add: GetExternalIp_def)
  have r: "fst (GetCurrentDDNSIp ?e example_service
      (Hostname \<lparr>Hostname = ''vr.example.org'', DynDns = Some example_dyn\<rparr>)) =
      ([''203.0.113.5'', ''203.0.113.9''], None)"
    by (simp add: GetCurrentDDNSIp_def)
  have m: "''203.0.113.9'' \<in> set [''203.0.113.5'', ''203.0.113.9'']" by simp
  from updateIP_no_update [OF example_config_sel _ g r m]
  show ?thesis by (simp add: example_service_def)
qed

text \<open>
  C7: an error in a cycle ends that cycle and nothing more. After a discovery error the
  cycle logs it and does nothing else (no lookup, no update); after a resolution error
  it logs it and does nothing else (no update); after an update error it logs it and
  ends. \<open>updateIP\<close> returns nothing, so no error reaches the loop: as long as the
  scheduler has not chosen the cancellation the loop is blocked in its \<open>select\<close>,
  whatever happened in the cycles before, and the next timer wake-up runs a whole cycle
  and waits again. The loop has returned exactly when the cancellation was chosen.
\<close>

theorem cycle_errors_absorbed:
  assumes "Frontend cfg = Some frontend" and "DynDns frontend = Some dyn"
  shows
    "(\<forall>err. snd (fst (GetExternalIp e self)) = Some err \<longrightarrow>
        updateIP e self cfg =
          [Log Info ''Checking DNS with %v'' [AStr (external_ip_url self)],
           HttpGet (external_ip_url self),
           Log Error ''Unable to get external IP: %v'' [AErr err]]) \<and>
     (\<forall>externalIP err.
        fst (GetExternalIp e self) = (externalIP, None) \<and>
        snd (fst (GetCurrentDDNSIp e self (Hostname frontend))) = Some err \<longrightarrow>
        updateIP e self cfg =
          [Log Info ''Checking DNS with %v'' [AStr (external_ip_url self)],
           HttpGet (external_ip_url self),
           DnsLookup (dns_server self) (Hostname frontend),
           Log Error ''Unable to resolve DDNS hostname IP: %v'' [AErr err]]) \<and>
     (\<forall>externalIP hostnameIPs reqstr err.
        fst (GetExternalIp e self) = (externalIP, None) \<and>
        fst (GetCurrentDDNSIp e self (Hostname frontend)) = (hostnameIPs, None) \<and>
        externalIP \<notin> set hostnameIPs \<and>
        reqstr = ''https://domains.google.com/nic/update?hostname='' @ Hostname frontend @
                 ''&myip='' @ externalIP \<and>
        fst (UpdateDDNSRecord e cfg reqstr (DdnsUsername dyn) (DdnsPassword dyn)) = Some err \<longrightarrow>
        updateIP e self cfg =
          [Log Info ''Checking DNS with %v'' [AStr (external_ip_url self)],
           HttpGet (external_ip_url self),
           DnsLookup (dns_server self) (Hostname frontend),
           Log Info ''DNS UPDATE REQUIRED. External IP=%v. %v=%v.''
             [AStr externalIP, AStr (Hostname frontend), AStrs hostnameIPs],
           Log Debug ''Submitting update request to %v'' [AStr reqstr]] @
          snd (UpdateDDNSRecord e cfg reqstr (DdnsUsername dyn) (DdnsPassword dyn)) @
          [Log Error ''Failed to update: %v'' [AErr err]]) \<and>
     (CtxDone \<notin> set ws \<longrightarrow>
        snd (Start e0 self cfg ws) = Blocked \<and>
        Start e0 self cfg (ws @ [TimerFired e]) =
          (fst (Start e0 self cfg ws) @ updateIP e self cfg @
             [SelectWait (wait_duration (effective_wait (Frequency dyn)))], Blocked)) \<and>
     (snd (Start e0 self cfg ws) = Returned \<longleftrightarrow> CtxDone \<in> set ws)"
proof (intro conjI allI impI)
  fix err
  assume "snd (fst (GetExternalIp e self)) = Some err"
  with assms show "updateIP e self cfg =
      [Log Info ''Checking DNS with %v'' [AStr (external_ip_url self)],
       HttpGet (external_ip_url self),
       Log Error ''Unable to get external IP: %v'' [AErr err]]"
    by (rule updateIP_discovery_error)
next
  fix externalIP err
  assume "fst (GetExternalIp e self) = (externalIP, None) \<and>
    snd (fst (GetCurrentDDNSIp e self (Hostname frontend))) = Some err"
  then have "fst (GetExternalIp e self) = (externalIP, None)"
    and "snd (fst (GetCurrentDDNSIp e self (Hostname frontend))) = Some err"
    by simp_all
  with assms show "updateIP e self cfg =
      [Log Info ''Checking DNS with %v'' [AStr (external_ip_url self)],
       HttpGet (external_ip_url self),
       DnsLookup (dns_server self) (Hostname frontend),
       Log Error ''Unable to resolve DDNS hostname IP: %v'' [AErr err]]"
    by (rule updateIP_resolve_error)
next
  fix externalIP hostnameIPs reqstr err
  assume h: "fst (GetExternalIp e self) = (externalIP, None) \<and>
    fst (GetCurrentDDNSIp e self (Hostname frontend)) = (hostnameIPs, None) \<and>
    externalIP \<notin> set hostnameIPs \<and>
    reqstr = ''https://domains.google.com/nic/update?hostname='' @ Hostname frontend @
             ''&myip='' @ externalIP \<and>
    fst (UpdateDDNSRecord e cfg reqstr (DdnsUsername dyn) (DdnsPassword dyn)) = Some err"
  note h1 = h [THEN conjunct1]
  note h2 = h [THEN conjunct2, THEN conjunct1]
  note h3 = h [THEN conjunct2, THEN conjunct2, THEN conjunct1]
  note h4 = h [THEN conjunct2, THEN conjunct2, THEN conjunct2, THEN conjunct1]
  note u = h [THEN conjunct2, THEN conjunct2, THEN conjunct2, THEN conjunct2]
  have "updateIP e self cfg =
      [Log Info ''Checking DNS with %v'' [AStr (external_ip_url self)],
       HttpGet (external_ip_url self),
       DnsLookup (dns_server self) (Hostname frontend),
       Log Info ''DNS UPDATE REQUIRED. External IP=%v. %v=%v.''
         [AStr externalIP, AStr (Hostname frontend), AStrs hostnameIPs],
       Log Debug ''Submitting update request to %v'' [AStr reqstr]] @
      snd (UpdateDDNSRecord e cfg reqstr (DdnsUsername dyn) (DdnsPassword dyn)) @
      (case fst (UpdateDDNSRecord e cfg reqstr (DdnsUsername dyn) (DdnsPassword dyn)) of
         None \<Rightarrow> []
       | Some err \<Rightarrow> [Log Error ''Failed to update: %v'' [AErr err]])"
    using assms h1 h2 h3 h4 by (rule updateIP_update)
  then show "updateIP e self cfg =
      [Log Info ''Checking DNS with %v'' [AStr (external_ip_url self)],
       HttpGet (external_ip_url self),
       DnsLookup (dns_server self) (Hostname frontend),
       Log Info ''DNS UPDATE REQUIRED. External IP=%v. %v=%v.''
         [AStr externalIP, AStr (Hostname frontend), AStrs hostnameIPs],
       Log Debug ''Submitting update request to %v'' [AStr reqstr]] @
      snd (UpdateDDNSRecord e cfg reqstr (DdnsUsername dyn) (DdnsPassword dyn)) @
      [Log Error ''Failed to update: %v'' [AErr err]]"
    by (simp only: u option.case)
next
  assume "CtxDone \<notin> set ws"
  with assms show "snd (Start e0 self cfg ws) = Blocked"
    by (rule Start_blocked)
next
  assume "CtxDone \<notin> set ws"
  with assms show "Start e0 self cfg (ws @ [TimerFired e]) =
      (fst (Start e0 self cfg ws) @ updateIP e self cfg @
         [SelectWait (wait_duration (effective_wait (Frequency dyn)))], Blocked)"
    by (rule Start_tick)
next
  from assms show "snd (Start e0 self cfg ws) = Returned \<longleftrightarrow> CtxDone \<in> set ws"
    by (rule Start_returned_iff)
qed

theorem cycle_errors_absorbed_witness:
  "updateIP (example_env\<lparr>http_Get := \<lambda>url. Inl (Failure ''i/o timeout'')\<rparr>)
     example_service example_config =
     [Log Info ''Checking DNS with %v'' [AStr ''https://domains.google.com/checkip''],
      HttpGet ''https://domains.google.com/checkip'',
      Log Error ''Unable to get external IP: %v'' [AErr (Failure ''i/o timeout'')]] \<and>
   updateIP (example_env\<lparr>LookupHost := \<lambda>server fqdn. ([], Some (Failure ''no such host''))\<rparr>)
     example_service example_config =
     [Log Info ''Checking DNS with %v'' [AStr ''https://domains.google.com/checkip''],
      HttpGet ''https://domains.google.com/checkip'',
      DnsLookup ''8.8.8.8:53'' ''vr.example.org'',
      Log Error ''Unable to resolve DDNS hostname IP: %v'' [AErr (Failure ''no such host'')]] \<and>
   updateIP (example_env\<lparr>client_Do := \<lambda>req. Inl (Failure ''connection refused'')\<rparr>)
     example_service example_config =
     [Log Info ''Checking DNS with %v'' [AStr ''https://domains.google.com/checkip''],
      HttpGet ''https://domains.google.com/checkip'',
      DnsLookup ''8.8.8.8:53'' ''vr.example.org'',
      Log Info ''DNS UPDATE REQUIRED. External IP=%v. %v=%v.''
        [AStr ''203.0.113.9'', AStr ''vr.example.org'', AStrs [''203.0.113.5'']],
      Log Debug ''Submitting update request to %v''
        [AStr ''https://domains.google.com/nic/update?hostname=vr.example.org&myip=203.0.113.9''],
      HttpDo \<lparr>Method = ''GET'',
              URL = ''https://domains.google.com/nic/update?hostname=vr.example.org&myip=203.0.113.9'',
              UserAgent = Some [], BasicAuth = Some (''user'', ''secret'')\<rparr>,
      Log Error ''Failed to update: %v'' [AErr (Failure ''connection refused'')]] \<and>
   snd (Start example_env example_service example_config
     [TimerFired (example_env\<lparr>http_Get := \<lambda>url. Inl (Failure ''i/o timeout'')\<rparr>),
      TimerFired (example_env\<lparr>LookupHost := \<lambda>server fqdn. ([], Some (Failure ''no such host''))\<rparr>),
      TimerFired (example_env\<lparr>client_Do := \<lambda>req. Inl (Failure ''connection refused'')\<rparr>)]) =
     Blocked \<and>
   snd (Start example_env example_service example_config
     [TimerFired (example_env\<lparr>http_Get := \<lambda>url. Inl (Failure ''i/o timeout'')\<rparr>), CtxDone]) =
     Returned"
proof -
  let ?get = "example_env\<lparr>http_Get := \<lambda>url. Inl (Failure ''i/o timeout'')\<rparr>"
  let ?dns = "example_env\<lparr>LookupHost := \<lambda>server fqdn. ([], Some (Failure ''no such host''))\<rparr>"
  let ?upd = "example_env\<lparr>client_Do := \<lambda>req. Inl (Failure ''connection refused'')\<rparr>"
  let ?url = "''https://domains.google.com/nic/update?hostname=vr.example.org&myip=203.0.113.9''"
  let ?ws = "[TimerFired ?get, TimerFired ?dns, TimerFired ?upd]"
  note th = cycle_errors_absorbed [OF example_config_sel example_frontend_sel]
  have s: "external_ip_url example_service = ''https://domains.google.com/checkip''"
    "dns_server example_service = ''8.8.8.8:53''"
    by (simp_all add: example_service_def)
  have g1: "snd (fst (GetExternalIp ?get example_service)) = Some (Failure ''i/o timeout'')"
    by (simp add: GetExternalIp_def)
  have g2: "fst (GetExternalIp ?dns example_service) = (''203.0.113.9'', None)"
    by (simp add: GetExternalIp_example_env s)
  have r2: "snd (fst (GetCurrentDDNSIp ?dns example_service
      (Hostname \<lparr>Hostname = ''vr.example.org'', DynDns = Some example_dyn\<rparr>))) =
      Some (Failure ''no such host'')"
    by (simp add: GetCurrentDDNSIp_def)
  have g3: "fst (GetExternalIp ?upd example_service) = (''203.0.113.9'', None)"
    by (simp add: GetExternalIp_example_env s)
  have r3: "fst (GetCurrentDDNSIp ?upd example_service
      (Hostname \<lparr>Hostname = ''vr.example.org'', DynDns = Some example_dyn\<rparr>)) =
      ([''203.0.113.5''], None)"
    by (simp add: GetCurrentDDNSIp_def example_env_def)
  have u3: "UpdateDDNSRecord ?upd example_config ?url ''user'' ''secret'' =
      (Some (Failure ''connection refused''),
       [HttpDo \<lparr>Method = ''GET'', URL = ?url, UserAgent = Some [],
                BasicAuth = Some (''user'', ''secret'')\<rparr>])"
    by (simp add: UpdateDDNSRecord_def example_env_def)
  have d: "DdnsUsername example_dyn = ''user''" "DdnsPassword example_dyn = ''secret''"
    by (simp_all add: example_dyn_def)
  have a: "updateIP ?get example_service example_config =
     [Log Info ''Checking DNS with %v'' [AStr ''https://domains.google.com/checkip''],
      HttpGet ''https://domains.google.com/checkip'',
      Log Error ''Unable to get external IP: %v'' [AErr (Failure ''i/o timeout'')]]"
    using th [of ?get example_service "[]" example_env, THEN conjunct1, rule_format, OF g1]
    by (simp add: s)
  have b: "updateIP ?dns example_service example_config =
     [Log Info ''Checking DNS with %v'' [AStr ''https://domains.google.com/checkip''],
      HttpGet ''https://domains.google.com/checkip'',
      DnsLookup ''8.8.8.8:53'' ''vr.example.org'',
      Log Error ''Unable to resolve DDNS hostname IP: %v'' [AErr (Failure ''no such host'')]]"
    using th [of ?dns example_service "[]" example_env, THEN conjunct2, THEN conjunct1,
        rule_format, OF conjI [OF g2 r2]]
    by (simp add: s)
  have n: "''203.0.113.9'' \<notin> set [''203.0.113.5'']" by simp
  have q: "?url = ''https://domains.google.com/nic/update?hostname='' @
      Hostname \<lparr>Hostname = ''vr.example.org'', DynDns = Some example_dyn\<rparr> @
      ''&myip='' @ ''203.0.113.9''"
    by simp
  have u3': "fst (UpdateDDNSRecord ?upd example_config ?url (DdnsUsername example_dyn)
      (DdnsPassword example_dyn)) = Some (Failure ''connection refused'')"
    by (simp add: u3 d)
  have c: "updateIP ?upd example_service example_config =
     [Log Info ''Checking DNS with %v'' [AStr ''https://domains.google.com/checkip''],
      HttpGet ''https://domains.google.com/checkip'',
      DnsLookup ''8.8.8.8:53'' ''vr.example.org'',
      Log Info ''DNS UPDATE REQUIRED. External IP=%v. %v=%v.''
        [AStr ''203.0.113.9'', AStr ''vr.example.org'', AStrs [''203.0.113.5'']],
      Log Debug ''Submitting update request to %v'' [AStr ?url],
      HttpDo \<lparr>Method = ''GET'', URL = ?url, UserAgent = Some [],
              BasicAuth = Some (''user'', ''secret'')\<rparr>,
      Log Error ''Failed to update: %v'' [AErr (Failure ''connection refused'')]]"
    using th [of ?upd example_service "[]" example_env, THEN conjunct2, THEN conjunct2,
        THEN conjunct1, rule_format, OF conjI [OF g3 conjI [OF r3 conjI [OF n conjI [OF q u3']]]]]
    by (simp add: s d u3)
  have w1: "CtxDone \<notin> set ?ws" by simp
  have e: "snd (Start example_env example_service example_config ?ws) = Blocked"
    using th [of example_env example_service ?ws example_env, THEN conjunct2, THEN conjunct2,
        THEN conjunct2, THEN conjunct1, rule_format, OF w1]
    by (rule conjunct1)
  have w2: "CtxDone \<in> set [TimerFired ?get, CtxDone]" by simp
  have f: "snd (Start example_env example_service example_config [TimerFired ?get, CtxDone]) =
      Returned"
    using th [of example_env example_service "[TimerFired ?get, CtxDone]" example_env,
        THEN conjunct2, THEN conjunct2, THEN conjunct2, THEN conjunct2] w2
    by (rule iffD2)
  from a b c e f show ?thesis by (intro conjI)
qed

subsection \<open>The loop and its timer\<close>

text \<open>
  C4 as stated fails for a configured frequency between 1 and 59: only the value 0 is
  replaced by 60. With a frequency of 5 the timer is set to five seconds.
\<close>

theorem wait_below_floor_counterexample:
  "sint (wait_duration (effective_wait 5)) = 5 * 1000000000 \<and>
   sint (wait_duration (effective_wait 5)) < 60 * 1000000000 \<and>
   last (fst (Start example_env example_service five_second_config [])) =
     SelectWait (5 * 1000000000)"
proof -
  let ?fr = "\<lparr>Hostname = ''vr.example.org'', DynDns = Some (example_dyn\<lparr>Frequency := 5\<rparr>)\<rparr>"
  have w: "wait_duration (effective_wait 5) = 5 * 1000000000"
    by (simp add: wait_duration_def effective_wait_def)
  have f: "Frontend five_second_config = Some ?fr"
    by (simp add: five_second_config_def)
  have d: "DynDns ?fr = Some (example_dyn\<lparr>Frequency := 5\<rparr>)"
    by simp
  have "last (fst (Start example_env example_service five_second_config [])) =
      SelectWait (wait_duration (effective_wait 5))"
    by (simp add: Start_unfold [OF f d])
  then show ?thesis by (simp add: w)
qed

text \<open>
  C4, amended: the wait between cycles is 60 seconds when the configured frequency is
  0. A frequency \<open>f\<close> other than 0 is taken as it is: the wait is \<open>f\<close> seconds as long
  as \<open>f\<close> seconds fit the signed 64-bit nanoseconds of a \<open>time.Duration\<close>, that is up
  to \<open>f = 9223372036\<close>. Every wait of the loop has this one duration. So the wait is at
  least 60 seconds when the frequency is 0 or from 60 to 9223372036, and below 60 seconds
  when it is from 1 to 59. Beyond 9223372036 the multiplication wraps around and no lower
  bound holds: at 9223372037 the duration is negative.
\<close>

theorem wait_between_cycles:
  "(f = 0 \<longrightarrow> sint (wait_duration (effective_wait f)) = 60 * 1000000000) \<and>
   (f \<noteq> 0 \<and> uint f * 1000000000 < 2 ^ 63 \<longrightarrow>
      sint (wait_duration (effective_wait f)) = uint f * 1000000000) \<and>
   (Frontend cfg = Some frontend \<and> DynDns frontend = Some dyn \<and>
    SelectWait d \<in> set (fst (Start e0 self cfg ws)) \<longrightarrow>
      d = wait_duration (effective_wait (Frequency dyn))) \<and>
   (f = 0 \<or> 60 \<le> uint f \<and> uint f \<le> 9223372036 \<longrightarrow>
      60 * 1000000000 \<le> sint (wait_duration (effective_wait f))) \<and>
   (1 \<le> uint f \<and> uint f \<le> 59 \<longrightarrow>
      sint (wait_duration (effective_wait f)) < 60 * 1000000000) \<and>
   sint (wait_duration (effective_wait 9223372037)) < 0"
proof (intro conjI impI)
  assume "f = 0"
  then show "sint (wait_duration (effective_wait f)) = 60 * 1000000000"
    by (simp add: wait_default)
next
  assume "f \<noteq> 0 \<and> uint f * 1000000000 < 2 ^ 63"
  then show "sint (wait_duration (effective_wait f)) = uint f * 1000000000"
    by (simp add: wait_configured)
next
  assume "Frontend cfg = Some frontend \<and> DynDns frontend = Some dyn \<and>
    SelectWait d \<in> set (fst (Start e0 self cfg ws))"
  then show "d = wait_duration (effective_wait (Frequency dyn))"
    using Start_waits by blast
next
  assume h: "f = 0 \<or> 60 \<le> uint f \<and> uint f \<le> 9223372036"
  show "60 * 1000000000 \<le> sint (wait_duration (effective_wait f))"
  proof (cases "f = 0")
    case True
    then show ?thesis by (simp add: wait_default)
  next
    case False
    with h have b: "60 \<le> uint f" "uint f \<le> 9223372036" by simp_all
    from False b(2) have "sint (wait_duration (effective_wait f)) = uint f * 1000000000"
      by (rule wait_in_range)
    then show ?thesis using b(1) by simp
  qed
next
  assume h: "1 \<le> uint f \<and> uint f \<le> 59"
  then have "f \<noteq> 0" by auto
  moreover from h have "uint f \<le> 9223372036" by simp
  ultimately have "sint (wait_duration (effective_wait f)) = uint f * 1000000000"
    by (rule wait_in_range)
  then show "sint (wait_duration (effective_wait f)) < 60 * 1000000000"
    using h by simp
next
  show "sint (wait_duration (effective_wait 9223372037)) < 0"
    by (rule wait_overflow)
qed

theorem wait_between_cycles_witness:
  "sint (wait_duration (effective_wait 0)) = 60 * 1000000000 \<and>
   sint (wait_duration (effective_wait 300)) = 300 * 1000000000 \<and>
   wait_duration (effective_wait (Frequency example_dyn)) = 60 * 1000000000 \<and>
   60 * 1000000000 \<le> sint (wait_duration (effective_wait 9223372036)) \<and>
   sint (wait_duration (effective_wait 59)) < 60 * 1000000000"
proof -
  have z: "(0::64 word) = 0" by simp
  have n: "(300::64 word) \<noteq> 0 \<and> uint (300::64 word) * 1000000000 < 2 ^ 63" by simp
  have m: "Frontend example_config =
        Some \<lparr>Hostname = ''vr.example.org'', DynDns = Some example_dyn\<rparr> \<and>
      DynDns \<lparr>Hostname = ''vr.example.org'', DynDns = Some example_dyn\<rparr> = Some example_dyn \<and>
      SelectWait (60 * 1000000000) \<in>
        set (fst (Start example_env example_service example_config []))"
    by (simp add: Start_example_cycle example_config_sel)
  have hi: "(9223372036::64 word) = 0 \<or>
      60 \<le> uint (9223372036::64 word) \<and> uint (9223372036::64 word) \<le> 9223372036"
    by simp
  have lo: "1 \<le> uint (59::64 word) \<and> uint (59::64 word) \<le> 59" by simp
  have a: "sint (wait_duration (effective_wait 0)) = 60 * 1000000000"
    using wait_between_cycles [THEN conjunct1, rule_format, OF z] .
  have b: "sint (wait_duration (effective_wait 300)) = 300 * 1000000000"
    using wait_between_cycles [THEN conjunct2, THEN conjunct1, rule_format, OF n] by simp
  have c: "wait_duration (effective_wait (Frequency example_dyn)) = 60 * 1000000000"
    using wait_between_cycles [THEN conjunct2, THEN conjunct2, THEN conjunct1, rule_format, OF m]
    by simp
  have d: "60 * 1000000000 \<le> sint (wait_duration (effective_wait 9223372036))"
    using wait_between_cycles [THEN conjunct2, THEN conjunct2, THEN conjunct2, THEN conjunct1,
        rule_format, OF hi] .
  have e: "sint (wait_duration (effective_wait 59)) < 60 * 1000000000"
    using wait_between_cycles [THEN conjunct2, THEN conjunct2, THEN conjunct2, THEN conjunct2,
        THEN conjunct1, rule_format, OF lo] .
  from a b c d e show ?thesis by (intro conjI)
qed

text \<open>
  C8: \<open>Start\<close> logs, runs one check at once, and only then blocks for the first time
  (a check itself never waits). From then on each timer wake-up runs one check, after
  which the loop blocks again; when the scheduler chooses the cancellation the loop
  returns, and it has done nothing beyond what it had done when it blocked: no further
  check, no network call, whatever wake-ups would have followed.
\<close>

theorem loop_timing:
  assumes "Frontend cfg = Some frontend" and "DynDns frontend = Some dyn"
    and "d = wait_duration (effective_wait (Frequency dyn))"
  shows
    "(\<exists>tr. fst (Start e0 self cfg ws) =
        Log Info ''<green>Starting</> the DynDNS service: Updating hostname %v with checkip URL %v''
          [AStr (Hostname frontend), AStr (external_ip_url self)] #
        updateIP e0 self cfg @ SelectWait d # tr) \<and>
     SelectWait d \<notin> set (updateIP e0 self cfg) \<and>
     (CtxDone \<notin> set ws \<longrightarrow>
        Start e0 self cfg (ws @ [TimerFired e]) =
          (fst (Start e0 self cfg ws) @ updateIP e self cfg @ [SelectWait d], Blocked)) \<and>
     (CtxDone \<notin> set ws \<longrightarrow>
        Start e0 self cfg (ws @ CtxDone # rest) = (fst (Start e0 self cfg ws), Returned))"
proof (intro conjI impI)
  obtain tr where "fst (loop self cfg (effective_wait (Frequency dyn)) ws) = SelectWait d # tr"
    using loop_first_wait assms(3) by blast
  then show "\<exists>tr. fst (Start e0 self cfg ws) =
        Log Info ''<green>Starting</> the DynDNS service: Updating hostname %v with checkip URL %v''
          [AStr (Hostname frontend), AStr (external_ip_url self)] #
        updateIP e0 self cfg @ SelectWait d # tr"
    by (simp add: Start_unfold [OF assms(1,2)])
next
  show "SelectWait d \<notin> set (updateIP e0 self cfg)"
    by (rule updateIP_no_wait)
next
  assume "CtxDone \<notin> set ws"
  with assms(1,2) have "Start e0 self cfg (ws @ [TimerFired e]) =
      (fst (Start e0 self cfg ws) @ updateIP e self cfg @
         [SelectWait (wait_duration (effective_wait (Frequency dyn)))], Blocked)"
    by (rule Start_tick)
  then show "Start e0 self cfg (ws @ [TimerFired e]) =
      (fst (Start e0 self cfg ws) @ updateIP e self cfg @ [SelectWait d], Blocked)"
    by (simp only: assms(3))
next
  assume "CtxDone \<notin> set ws"
  with assms(1,2) show "Start e0 self cfg (ws @ CtxDone # rest) =
      (fst (Start e0 self cfg ws), Returned)"
    by (rule Start_cancel)
qed

theorem loop_timing_witness:
  "Start example_env example_service example_config [TimerFired example_env] =
     (fst (Start example_env example_service example_config []) @
      updateIP example_env example_service example_config @ [SelectWait 60000000000],
      Blocked) \<and>
   Start example_env example_service example_config
     [TimerFired example_env, CtxDone, TimerFired example_env] =
     (fst (Start example_env example_service example_config [TimerFired example_env]),
      Returned) \<and>
   network_calls (fst (Start example_env example_service example_config [CtxDone])) =
     network_calls (updateIP example_env example_service example_config)"
proof -
  have w: "60000000000 = wait_duration (effective_wait (Frequency example_dyn))"
    by (simp add: wait_duration_def effective_wait_def example_dyn_def)
  note th = loop_timing [OF example_config_sel example_frontend_sel w]
  have n0: "CtxDone \<notin> set []" by simp
  have n1: "CtxDone \<notin> set [TimerFired example_env]" by simp
  have a: "Start example_env example_service example_config [TimerFired example_env] =
     (fst (Start example_env example_service example_config []) @
      updateIP example_env example_service example_config @ [SelectWait 60000000000],
      Blocked)"
    using th [of example_env example_service "[]" example_env,
        THEN conjunct2, THEN conjunct2, THEN conjunct1, rule_format, OF n0]
    by simp
  have b: "Start example_env example_service example_config
     [TimerFired example_env, CtxDone, TimerFired example_env] =
     (fst (Start example_env example_service example_config [TimerFired example_env]),
      Returned)"
    using th [of example_env example_service "[TimerFired example_env]" example_env
        "[TimerFired example_env]", THEN conjunct2, THEN conjunct2, THEN conjunct2,
        rule_format, OF n1]
    by simp
  have "Start example_env example_service example_config [CtxDone] =
     (fst (Start example_env example_service example_config []), Returned)"
    using th [of example_env example_service "[]" example_env "[]",
        THEN conjunct2, THEN conjunct2, THEN conjunct2, rule_format, OF n0]
    by simp
  then have c: "network_calls (fst (Start example_env example_service example_config [CtxDone])) =
     network_calls (updateIP example_env example_service example_config)"
    by (simp add: Start_example_cycle network_calls_def)
  from a b c show ?thesis by (intro conjI)
qed

subsection \<open>IP discovery\<close>

text \<open>
  C5: whenever the HTTP GET succeeds, the string \<open>GetExternalIp\<close> returns is the body
  with its leading and trailing white space trimmed: it is \<open>TrimSpace\<close> of the body, it
  differs from the body only by white space runes removed at either end, and by the table
  of white space runes no rune of the table is left at its start or at its end. When the
  read of the body ended without error or with exactly \<open>io.EOF\<close> the returned error is
  \<open>nil\<close>; any other read error is returned to the caller (together with the trimmed
  content).
\<close>

theorem GetExternalIp_body:
  assumes "http_Get e (external_ip_url self) = Inr resp"
  shows "fst (fst (GetExternalIp e self)) = TrimSpace (body_data resp) \<and>
         (\<exists>pre post. body_data resp = pre @ fst (fst (GetExternalIp e self)) @ post \<and>
            spaces pre \<and> spaces post) \<and>
         (\<forall>k. \<not> space_rune (take k (fst (fst (GetExternalIp e self))))) \<and>
         (\<forall>k. \<not> space_rune (drop k (fst (fst (GetExternalIp e self))))) \<and>
         (body_err resp = None \<or> body_err resp = Some EOF \<longrightarrow>
            snd (fst (GetExternalIp e self)) = None) \<and>
         (\<forall>err. body_err resp = Some err \<and> err \<noteq> EOF \<longrightarrow>
            snd (fst (GetExternalIp e self)) = Some err)"
proof -
  have ip: "fst (fst (GetExternalIp e self)) = TrimSpace (body_data resp)"
    using assms by (simp add: GetExternalIp_def Let_def)
  have err: "snd (fst (GetExternalIp e self)) =
      (if body_err resp = Some EOF then None else body_err resp)"
    using assms by (simp add: GetExternalIp_def Let_def)
  show ?thesis
    using TrimSpace_trimmed [of "body_data resp"] TrimSpace_no_space_left [of "body_data resp"]
    by (simp add: ip err)
qed

theorem GetExternalIp_body_witness:
  "fst (GetExternalIp example_env example_service) = (''203.0.113.9'', None) \<and>
   fst (GetExternalIp
     (example_env\<lparr>http_Get := \<lambda>url.
        Inr \<lparr>StatusCode = 200,
             body_data = [CHR 0x20, CHR 0x09, CHR 0xC2, CHR 0xA0] @ ''203.0.113.9'' @
                         [CHR 0x0D, CHR 0x0A],
             body_err = Some EOF\<rparr>\<rparr>)
     example_service) = (''203.0.113.9'', None) \<and>
   fst (GetExternalIp
     (example_env\<lparr>http_Get := \<lambda>url.
        Inr \<lparr>StatusCode = 200, body_data = ''203.0.113.9'' @ [CHR 0x0A],
             body_err = Some (Failure ''unexpected EOF'')\<rparr>\<rparr>)
     example_service) = (''203.0.113.9'', Some (Failure ''unexpected EOF''))"
proof -
  let ?r0 = "\<lparr>StatusCode = 200, body_data = ''203.0.113.9'' @ [CHR 0x0A], body_err = None\<rparr>"
  let ?r1 = "\<lparr>StatusCode = 200,
              body_data = [CHR 0x20, CHR 0x09, CHR 0xC2, CHR 0xA0] @ ''203.0.113.9'' @
                          [CHR 0x0D, CHR 0x0A],
              body_err = Some EOF\<rparr>"
  let ?r2 = "\<lparr>StatusCode = 200, body_data = ''203.0.113.9'' @ [CHR 0x0A],
              body_err = Some (Failure ''unexpected EOF'')\<rparr>"
  let ?e1 = "example_env\<lparr>http_Get := \<lambda>url. Inr ?r1\<rparr>"
  let ?e2 = "example_env\<lparr>http_Get := \<lambda>url. Inr ?r2\<rparr>"
  have h0: "http_Get example_env (external_ip_url example_service) = Inr ?r0"
    by (simp add: example_env_def example_service_def)
  have h1: "http_Get ?e1 (external_ip_url example_service) = Inr ?r1"
    by simp
  have h2: "http_Get ?e2 (external_ip_url example_service) = Inr ?r2"
    by simp
  have t: "TrimSpace (body_data ?r0) = ''203.0.113.9''"
    "TrimSpace (body_data ?r1) = ''203.0.113.9''"
    "TrimSpace (body_data ?r2) = ''203.0.113.9''"
    using TrimSpace_example TrimSpace_example_both by simp_all
  have a0: "fst (GetExternalIp example_env example_service) = (''203.0.113.9'', None)"
    using GetExternalIp_body [OF h0, THEN conjunct1]
      GetExternalIp_body [OF h0, THEN conjunct2, THEN conjunct2, THEN conjunct2,
        THEN conjunct2, THEN conjunct1]
    by (simp only: t prod_eq_iff) simp
  have a1: "fst (GetExternalIp ?e1 example_service) = (''203.0.113.9'', None)"
    using GetExternalIp_body [OF h1, THEN conjunct1]
      GetExternalIp_body [OF h1, THEN conjunct2, THEN conjunct2, THEN conjunct2,
        THEN conjunct2, THEN conjunct1]
    by (simp only: t prod_eq_iff) simp
  have a2: "fst (GetExternalIp ?e2 example_service) =
      (''203.0.113.9'', Some (Failure ''unexpected EOF''))"
    using GetExternalIp_body [OF h2, THEN conjunct1]
      GetExternalIp_body [OF h2, THEN conjunct2, THEN conjunct2, THEN conjunct2,
        THEN conjunct2, THEN conjunct2]
    by (simp only: t prod_eq_iff) simp
  show ?thesis
    using a0 a1 a2 by (intro conjI)
qed

text \<open>
  C10: when the HTTP GET itself fails, \<open>GetExternalIp\<close> returns the transport error
  together with the literal string \<open>Unable to determine external IP: %v \<close> (the verb is
  never filled in), which is not empty and is no IP address.
\<close>

theorem GetExternalIp_transport_failure:
  assumes "http_Get e (external_ip_url self) = Inl err"
  shows "fst (GetExternalIp e self) = (''Unable to determine external IP: %v '', Some err) \<and>
         fst (fst (GetExternalIp e self)) \<noteq> [] \<and>
         \<not> list_all ip_char (fst (fst (GetExternalIp e self)))"
  using assms by (simp add: GetExternalIp_def ip_char_def)

theorem GetExternalIp_transport_failure_witness:
  "fst (GetExternalIp example_env (example_service\<lparr>external_ip_url := ''http://nowhere''\<rparr>)) =
     (''Unable to determine external IP: %v '', Some (Failure ''no such host''))"
proof -
  have h: "http_Get example_env
      (external_ip_url (example_service\<lparr>external_ip_url := ''http://nowhere''\<rparr>)) =
      Inl (Failure ''no such host'')"
    by (simp add: example_env_def)
  from GetExternalIp_transport_failure [OF h] show ?thesis by simp
qed

subsection \<open>Resolution\<close>

text \<open>
  C9: on a successful resolution \<open>GetCurrentDDNSIp\<close> returns the resolver's list as it
  is, same elements in the same order, duplicates included; on a failed one it returns the
  nil list and the resolver's error unchanged. Either way it asks the resolver once.
\<close>

theorem GetCurrentDDNSIp_returns:
  "(LookupHost e (dns_server self) fqdn = (ips, None) \<longrightarrow>
      GetCurrentDDNSIp e self fqdn = ((ips, None), [DnsLookup (dns_server self) fqdn])) \<and>
   (LookupHost e (dns_server self) fqdn = (ips, Some err) \<longrightarrow>
      GetCurrentDDNSIp e self fqdn = (([], Some err), [DnsLookup (dns_server self) fqdn]))"
  by (simp add: GetCurrentDDNSIp_def)

theorem GetCurrentDDNSIp_returns_witness:
  "GetCurrentDDNSIp
     (example_env\<lparr>LookupHost := \<lambda>server fqdn.
        ([''203.0.113.5'', ''198.51.100.7'', ''203.0.113.5''], None)\<rparr>)
     example_service ''vr.example.org'' =
     (([''203.0.113.5'', ''198.51.100.7'', ''203.0.113.5''], None),
      [DnsLookup ''8.8.8.8:53'' ''vr.example.org'']) \<and>
   GetCurrentDDNSIp
     (example_env\<lparr>LookupHost := \<lambda>server fqdn.
        ([''203.0.113.5''], Some (Failure ''no such host''))\<rparr>)
     example_service ''vr.example.org'' =
     (([], Some (Failure ''no such host'')), [DnsLookup ''8.8.8.8:53'' ''vr.example.org''])"
proof -
  let ?ok = "example_env\<lparr>LookupHost := \<lambda>server fqdn.
        ([''203.0.113.5'', ''198.51.100.7'', ''203.0.113.5''], None)\<rparr>"
  let ?bad = "example_env\<lparr>LookupHost := \<lambda>server fqdn.
        ([''203.0.113.5''], Some (Failure ''no such host''))\<rparr>"
  have a: "LookupHost ?ok (dns_server example_service) ''vr.example.org'' =
      ([''203.0.113.5'', ''198.51.100.7'', ''203.0.113.5''], None)"
    by simp
  have b: "LookupHost ?bad (dns_server example_service) ''vr.example.org'' =
      ([''203.0.113.5''], Some (Failure ''no such host''))"
    by simp
  have d: "dns_server example_service = ''8.8.8.8:53''"
    by (simp add: example_service_def)
  from GetCurrentDDNSIp_returns [THEN conjunct1, rule_format, OF a]
    GetCurrentDDNSIp_returns [THEN conjunct2, rule_format, OF b]
  show ?thesis by (simp add: d)
qed

subsection \<open>Update submission\<close>

text \<open>
  C6: \<open>UpdateDDNSRecord\<close> returns a non-nil error exactly when \<open>http.NewRequest\<close>
  fails, or \<open>client.Do\<close> fails, or reading the response body fails. Whenever the body
  is read without error it returns \<open>nil\<close>, whatever the status code of the response.
\<close>

theorem UpdateDDNSRecord_error_iff:
  assumes "req = \<lparr>Method = ''GET'', URL = url, UserAgent = Some [], BasicAuth = Some (user, pw)\<rparr>"
  shows "(fst (UpdateDDNSRecord e cfg url user pw) \<noteq> None \<longleftrightarrow>
            NewRequest_err e url \<noteq> None \<or>
            (\<exists>err. client_Do e req = Inl err) \<or>
            (\<exists>resp err. client_Do e req = Inr resp \<and> body_err resp = Some err)) \<and>
         (\<forall>resp. NewRequest_err e url = None \<and> client_Do e req = Inr resp \<and>
                 body_err resp = None \<longrightarrow>
                 fst (UpdateDDNSRecord e cfg url user pw) = None)"
proof -
  have "fst (UpdateDDNSRecord e cfg url user pw) =
      (case NewRequest_err e url of
         Some err \<Rightarrow> Some err
       | None \<Rightarrow>
           (case client_Do e req of
              Inl err \<Rightarrow> Some err
            | Inr resp \<Rightarrow> body_err resp))"
    by (simp add: UpdateDDNSRecord_def assms Let_def split: option.splits sum.splits)
  then show ?thesis
    by (auto split: option.splits sum.splits)
qed

theorem UpdateDDNSRecord_error_iff_witness:
  "fst (UpdateDDNSRecord
          (example_env\<lparr>client_Do := \<lambda>req.
             Inr \<lparr>StatusCode = 401, body_data = ''badauth'', body_err = None\<rparr>\<rparr>)
          example_config ''https://domains.google.com/nic/update?hostname=h&myip=i''
          ''user'' ''secret'') = None \<and>
   fst (UpdateDDNSRecord
          (example_env\<lparr>client_Do := \<lambda>req.
             Inr \<lparr>StatusCode = 200, body_data = ''goo'', body_err = Some EOF\<rparr>\<rparr>)
          example_config ''https://domains.google.com/nic/update?hostname=h&myip=i''
          ''user'' ''secret'') \<noteq> None"
proof -
  let ?e = "example_env\<lparr>client_Do := \<lambda>req.
             Inr \<lparr>StatusCode = 401, body_data = ''badauth'', body_err = None\<rparr>\<rparr>"
  let ?f = "example_env\<lparr>client_Do := \<lambda>req.
             Inr \<lparr>StatusCode = 200, body_data = ''goo'', body_err = Some EOF\<rparr>\<rparr>"
  let ?url = "''https://domains.google.com/nic/update?hostname=h&myip=i''"
  let ?req = "\<lparr>Method = ''GET'', URL = ?url, UserAgent = Some [],
               BasicAuth = Some (''user'', ''secret'')\<rparr>"
  have h: "NewRequest_err ?e ?url = None \<and>
      client_Do ?e ?req = Inr \<lparr>StatusCode = 401, body_data = ''badauth'', body_err = None\<rparr> \<and>
      body_err \<lparr>StatusCode = 401, body_data = ''badauth'', body_err = None\<rparr> = None"
    by (simp add: example_env_def)
  have a: "fst (UpdateDDNSRecord ?e example_config ?url ''user'' ''secret'') = None"
    using UpdateDDNSRecord_error_iff [OF refl, THEN conjunct2, rule_format, OF h] .
  have k: "NewRequest_err ?f ?url \<noteq> None \<or>
      (\<exists>err. client_Do ?f ?req = Inl err) \<or>
      (\<exists>resp err. client_Do ?f ?req = Inr resp \<and> body_err resp = Some err)"
    by simp
  have b: "fst (UpdateDDNSRecord ?f example_config ?url ''user'' ''secret'') \<noteq> None"
    using UpdateDDNSRecord_error_iff [OF refl, THEN conjunct1] k by (rule iffD2)
  from a b show ?thesis by (rule conjI)
qed

end
